theory Spec2Isabelle
  imports Complex_Main
begin

section \<open>FoxEngine: the per-frame pipeline of \<open>Engine::Start\<close>\<close>

text \<open>
  The development embeds the parts of \<open>src/game/src/EntryPoint.cpp\<close> and of the radial
  blur shader that the specification talks about. C++ \<open>float\<close> and \<open>double\<close> values and
  GLSL \<open>float\<close> values are written as exact rationals (type \<open>rat\<close>): the embedding
  follows the arithmetic of the source expression by expression and leaves rounding out.
  Null pointers are \<open>None\<close>; dereferencing one is the error \<open>NullDereference\<close>.
\<close>

subsection \<open>Icon snapshot cadence (lines 898 to 951)\<close>

text \<open>
  The two function-local statics \<open>rotateDelta\<close> and \<open>timer\<close>, both \<open>double\<close> and
  both starting at \<open>0.0\<close>.
\<close>

record icon_timer =
  rotateDelta :: rat
  timer :: rat

definition icon_timer_init :: icon_timer where
  "icon_timer_init = \<lparr>rotateDelta = 0, timer = 0\<rparr>"

text \<open>
  One trip through the block guarded by \<open>w != 0 && h != 0\<close>. The result is the new
  statics, whether the snapshot body ran, and the angle (in degrees) by which the fox
  entity is turned when it ran.
\<close>

definition icon_tick :: "int \<Rightarrow> int \<Rightarrow> rat \<Rightarrow> icon_timer \<Rightarrow> icon_timer \<times> bool \<times> rat" where
  "icon_tick w h deltaTime s =
     (if w \<noteq> 0 \<and> h \<noteq> 0 then
        (let rd = rotateDelta s + deltaTime;
             tm = timer s + deltaTime
         in if tm > 1 / 8
            then (\<lparr>rotateDelta = 0, timer = 0\<rparr>, True, 45 * rd)
            else (\<lparr>rotateDelta = rd, timer = tm\<rparr>, False, 0))
      else (s, False, 0))"

text \<open>
  A run of frames, each given by the window's framebuffer size and the frame's
  \<open>deltaTime\<close>; the result is the final statics and one flag per frame.
\<close>

fun icon_run :: "icon_timer \<Rightarrow> (int \<times> int \<times> rat) list \<Rightarrow> icon_timer \<times> bool list" where
  "icon_run s [] = (s, [])"
| "icon_run s ((w, h, dt) # fs) =
     (case icon_tick w h dt s of
        (s', fired, _) \<Rightarrow> (case icon_run s' fs of (s'', bs) \<Rightarrow> (s'', fired # bs)))"

text \<open>The time a run of frames adds to the accumulator: frames with an empty window add nothing.\<close>

fun counted_time :: "(int \<times> int \<times> rat) list \<Rightarrow> rat" where
  "counted_time [] = 0"
| "counted_time ((w, h, dt) # fs) = (if w \<noteq> 0 \<and> h \<noteq> 0 then dt else 0) + counted_time fs"

subsection \<open>Entities and their components (lines 113 to 161)\<close>

type_synonym vec2 = "rat \<times> rat"
type_synonym vec3 = "rat \<times> rat \<times> rat"
type_synonym vec4 = "rat \<times> rat \<times> rat \<times> rat"

text \<open>
  A GL object name, and also the identity of a shared engine object (mesh, shader,
  texture). A \<open>std::shared_ptr\<close> is \<open>handle option\<close>, with \<open>None\<close> the null pointer.
\<close>

type_synonym handle = nat

record Transform =
  translation :: vec3
  orientation :: vec4
  scale :: vec3

record TransformComponent =
  transform :: Transform
  name :: string
  tag :: string

record MeshFilterComponent =
  mesh :: "handle option"
  mesh_resource :: string

record MeshRendererComponent =
  shader :: "handle option"
  shaderResource :: string
  texture :: "handle option"
  texture_resource :: string

text \<open>
  An entity of the registry with the components it may carry. The view
  \<open>mRegistry.view<TransformComponent, MeshFilterComponent, MeshRendererComponent>()\<close>
  visits the entities that carry all three.
\<close>

record entity =
  entity_id :: nat
  transformComponent :: "TransformComponent option"
  meshFilterComponent :: "MeshFilterComponent option"
  meshRendererComponent :: "MeshRendererComponent option"

fun registry_view ::
  "entity list \<Rightarrow> (nat \<times> TransformComponent \<times> MeshFilterComponent \<times> MeshRendererComponent) list" where
  "registry_view [] = []"
| "registry_view (e # es) =
     (case (transformComponent e, meshFilterComponent e, meshRendererComponent e) of
        (Some tc, Some mf, Some mr) \<Rightarrow> (entity_id e, tc, mf, mr) # registry_view es
      | _ \<Rightarrow> registry_view es)"

subsection \<open>The GL context\<close>

datatype error = NullDereference | CreateFailed | CastOutOfRange

text \<open>What a draw call draws: the mesh of an entity, the sun billboard, or the blur quad.\<close>

datatype draw_source = EntityMesh nat | SunQuad | BlurQuad

text \<open>
  A draw call as the context sees it: the mesh, the program and texture bound, the uniforms
  of the bound program, and the fixed-function state in force when it is issued.
\<close>

record draw_call =
  dc_source :: draw_source
  dc_mesh :: handle
  dc_program :: "handle option"
  dc_texture :: "handle option"
  dc_uniforms :: "string \<rightharpoonup> rat list"
  dc_cull_face :: bool
  dc_depth_test :: bool
  dc_blend :: bool
  dc_depth_mask :: bool
  dc_draw_buffers :: "nat list"
  dc_framebuffer :: handle

datatype gl_call =
    DeleteFramebuffers handle
  | CreateTexture handle string int int
  | DeleteTexture handle
  | CreateRenderbuffer handle int int
  | DeleteRenderbuffer handle
  | GenFramebuffers handle
  | BindFramebuffer handle
  | FramebufferTexture2D nat handle
  | FramebufferRenderbuffer handle
  | DrawBuffers "nat list"
  | Clear
  | Draw draw_call

record framebuffer =
  color_attachment0 :: "handle option"
  color_attachment1 :: "handle option"
  depth_attachment :: "handle option"

text \<open>
  The state of the context: the capabilities toggled by \<open>glEnable\<close> and \<open>glDisable\<close>, the
  bound objects, the uniforms stored per program, the live textures and renderbuffers with
  their sizes, the live framebuffer objects, and the calls issued so far (oldest first).
  Object names come from a counter, so a name is never handed out twice.
\<close>

record gl_state =
  cull_face :: bool
  depth_test :: bool
  blend :: bool
  depth_mask :: bool
  draw_buffers :: "nat list"
  bound_framebuffer :: handle
  bound_program :: "handle option"
  bound_texture :: "handle option"
  uniforms :: "handle \<Rightarrow> (string \<rightharpoonup> rat list)"
  textures :: "handle \<rightharpoonup> int \<times> int"
  renderbuffers :: "handle \<rightharpoonup> int \<times> int"
  framebuffers :: "handle \<rightharpoonup> framebuffer"
  next_name :: handle
  calls :: "gl_call list"

text \<open>The state set up before the frame loop (lines 353 to 362): culling and depth test on.\<close>

definition gl_init :: gl_state where
  "gl_init = \<lparr>cull_face = True, depth_test = True, blend = False, depth_mask = True,
     draw_buffers = [0], bound_framebuffer = 0, bound_program = None, bound_texture = None,
     uniforms = (\<lambda>_. Map.empty), textures = Map.empty, renderbuffers = Map.empty,
     framebuffers = Map.empty, next_name = 1, calls = []\<rparr>"

text \<open>
  Modelled from the spec: the classes \<open>Shader\<close>, \<open>Texture\<close> and \<open>Mesh\<close> of the
  engine headers (\<open>engine/shader.hpp\<close>, \<open>engine/texture.hpp\<close>, \<open>engine/mesh.hpp\<close>),
  which are not among the sources at hand. The specification gives their interface
  (section 6): a shader is bound and takes uniform values by name, a texture is bound, a
  mesh is drawn. Binding makes the object the current one of its kind; a draw is recorded
  with the state of the context at that moment.
\<close>

definition Shader_Bind :: "handle \<Rightarrow> gl_state \<Rightarrow> gl_state" where
  "Shader_Bind sh g = g\<lparr>bound_program := Some sh\<rparr>"

text \<open>
  \<open>UniformMat4f\<close>, \<open>Uniform2f\<close> and \<open>Uniform1f\<close> store a value under a name in the
  program's uniforms. Matrices are stored by name only; their entries play no part here.
\<close>

definition Shader_Uniform :: "handle \<Rightarrow> string \<Rightarrow> rat list \<Rightarrow> gl_state \<Rightarrow> gl_state" where
  "Shader_Uniform sh nm v g = g\<lparr>uniforms := (uniforms g)(sh := (uniforms g sh)(nm \<mapsto> v))\<rparr>"

definition Texture_Bind :: "handle \<Rightarrow> gl_state \<Rightarrow> gl_state" where
  "Texture_Bind t g = g\<lparr>bound_texture := Some t\<rparr>"

definition Mesh_Draw :: "draw_source \<Rightarrow> handle \<Rightarrow> gl_state \<Rightarrow> gl_state" where
  "Mesh_Draw src m g = g\<lparr>calls := calls g @ [Draw
     \<lparr>dc_source = src, dc_mesh = m, dc_program = bound_program g, dc_texture = bound_texture g,
      dc_uniforms = (case bound_program g of None \<Rightarrow> Map.empty | Some p \<Rightarrow> uniforms g p),
      dc_cull_face = cull_face g, dc_depth_test = depth_test g, dc_blend = blend g,
      dc_depth_mask = depth_mask g, dc_draw_buffers = draw_buffers g,
      dc_framebuffer = bound_framebuffer g\<rparr>]\<rparr>"

text \<open>The draw calls among the calls issued, in order.\<close>

fun draws_of :: "gl_call list \<Rightarrow> draw_call list" where
  "draws_of [] = []"
| "draws_of (Draw d # cs) = d # draws_of cs"
| "draws_of (_ # cs) = draws_of cs"

text \<open>Dereferencing a shared pointer: the null pointer has no object behind it.\<close>

definition deref :: "handle option \<Rightarrow> error + handle" where
  "deref p = (case p of None \<Rightarrow> Inl NullDereference | Some h \<Rightarrow> Inr h)"

subsection \<open>Scene pass (lines 620 to 646)\<close>

text \<open>
  The body of the loop for one entity of the view. \<open>culls\<close> is
  \<open>Shader::CullsBackFaces\<close>, a property of the shader object. The four \<open>continue\<close>
  statements come first, in the order of the source; every use of a pointer after them goes
  through \<open>deref\<close>.
\<close>

definition scene_entity ::
  "(handle \<Rightarrow> bool) \<Rightarrow> nat \<times> TransformComponent \<times> MeshFilterComponent \<times> MeshRendererComponent
     \<Rightarrow> gl_state \<Rightarrow> error + gl_state" where
  "scene_entity culls e g =
     (case e of (i, tc, meshFilter, meshRenderer) \<Rightarrow>
        if texture meshRenderer = None then Inr g
        else if shader meshRenderer = None then Inr g
        else if mesh meshFilter = None then Inr g
        else if tag tc = ''__icon'' then Inr g
        else
          (case deref (shader meshRenderer) of Inl err \<Rightarrow> Inl err | Inr sh \<Rightarrow>
             let cullsBackFaces = culls sh;
                 g1 = (if \<not> cullsBackFaces then g\<lparr>cull_face := False\<rparr> else g);
                 g2 = Shader_Bind sh g1;
                 g3 = Shader_Uniform sh ''uProjection'' [] g2;
                 g4 = Shader_Uniform sh ''uView'' [] g3;
                 g5 = Shader_Uniform sh ''uModel'' [] g4
             in (case deref (texture meshRenderer) of Inl err \<Rightarrow> Inl err | Inr tx \<Rightarrow>
                   let g6 = Texture_Bind tx g5
                   in (case deref (mesh meshFilter) of Inl err \<Rightarrow> Inl err | Inr m \<Rightarrow>
                         let g7 = Mesh_Draw (EntityMesh i) m g6
                         in Inr (if \<not> cullsBackFaces then g7\<lparr>cull_face := True\<rparr> else g7)))))"

fun for_each ::
  "('a \<Rightarrow> gl_state \<Rightarrow> error + gl_state) \<Rightarrow> 'a list \<Rightarrow> gl_state \<Rightarrow> error + gl_state" where
  "for_each body [] g = Inr g"
| "for_each body (e # es) g =
     (case body e g of Inl err \<Rightarrow> Inl err | Inr g' \<Rightarrow> for_each body es g')"

definition scene_pass :: "(handle \<Rightarrow> bool) \<Rightarrow> entity list \<Rightarrow> gl_state \<Rightarrow> error + gl_state" where
  "scene_pass culls registry g = for_each (scene_entity culls) (registry_view registry) g"

text \<open>The entities the scene pass is meant to draw.\<close>

definition scene_drawable ::
  "nat \<times> TransformComponent \<times> MeshFilterComponent \<times> MeshRendererComponent \<Rightarrow> bool" where
  "scene_drawable e =
     (case e of (i, tc, mf, mr) \<Rightarrow>
        mesh mf \<noteq> None \<and> shader mr \<noteq> None \<and> texture mr \<noteq> None \<and> tag tc \<noteq> ''__icon'')"

text \<open>
  What a draw call was issued with: its source, its mesh, the program and the texture
  bound, and whether the bound program has been given the three matrices. Beside it, what
  an entity of the view asks for: its own mesh, shader and texture, with the matrices
  uploaded.
\<close>

definition draw_binding ::
  "draw_call \<Rightarrow> draw_source \<times> handle option \<times> handle option \<times> handle option \<times> bool" where
  "draw_binding d =
     (dc_source d, Some (dc_mesh d), dc_program d, dc_texture d,
      dc_uniforms d ''uProjection'' \<noteq> None \<and> dc_uniforms d ''uView'' \<noteq> None \<and>
      dc_uniforms d ''uModel'' \<noteq> None)"

definition entity_binding ::
  "nat \<times> TransformComponent \<times> MeshFilterComponent \<times> MeshRendererComponent
     \<Rightarrow> draw_source \<times> handle option \<times> handle option \<times> handle option \<times> bool" where
  "entity_binding e =
     (case e of (i, tc, mf, mr) \<Rightarrow> (EntityMesh i, mesh mf, shader mr, texture mr, True))"

subsection \<open>Icon pass loop (lines 923 to 938)\<close>

text \<open>
  The body of the icon loop for one entity of the view: the tag is the only test before
  the shader, the texture and the mesh are used.
\<close>

definition icon_entity ::
  "nat \<times> TransformComponent \<times> MeshFilterComponent \<times> MeshRendererComponent
     \<Rightarrow> gl_state \<Rightarrow> error + gl_state" where
  "icon_entity e g =
     (case e of (i, tc, meshFilter, meshRenderer) \<Rightarrow>
        if tag tc \<noteq> ''__icon'' then Inr g
        else
          (case deref (shader meshRenderer) of Inl err \<Rightarrow> Inl err | Inr sh \<Rightarrow>
             let g2 = Shader_Bind sh g;
                 g3 = Shader_Uniform sh ''uProjection'' [] g2;
                 g4 = Shader_Uniform sh ''uView'' [] g3;
                 g5 = Shader_Uniform sh ''uModel'' [] g4
             in (case deref (texture meshRenderer) of Inl err \<Rightarrow> Inl err | Inr tx \<Rightarrow>
                   let g6 = Texture_Bind tx g5
                   in (case deref (mesh meshFilter) of Inl err \<Rightarrow> Inl err | Inr m \<Rightarrow>
                         Inr (Mesh_Draw (EntityMesh i) m g6)))))"

definition icon_pass :: "entity list \<Rightarrow> gl_state \<Rightarrow> error + gl_state" where
  "icon_pass registry g = for_each icon_entity (registry_view registry) g"

text \<open>
  An entity as the editor builds it: a \<open>TransformComponent\<close> with the default transform
  and name and the given tag, and both mesh components with the given pointers.
\<close>

definition editor_entity ::
  "nat \<Rightarrow> string \<Rightarrow> handle option \<Rightarrow> handle option \<Rightarrow> handle option \<Rightarrow> entity" where
  "editor_entity i tg m sh tx =
     \<lparr>entity_id = i,
      transformComponent = Some \<lparr>transform = \<lparr>translation = (0, 0, 0), orientation = (1, 0, 0, 0),
                                               scale = (1, 1, 1)\<rparr>,
                                 name = ''unnamed'', tag = tg\<rparr>,
      meshFilterComponent = Some \<lparr>mesh = m, mesh_resource = []\<rparr>,
      meshRendererComponent = Some \<lparr>shader = sh, shaderResource = [], texture = tx,
                                    texture_resource = []\<rparr>\<rparr>"

subsection \<open>Viewport render target (lines 364 to 368 and 554 to 607)\<close>

text \<open>
  The locals of \<open>Engine::Start\<close> that hold the render target. \<open>fbo\<close> is the GL name of
  the framebuffer object (0 before the first allocation); a \<open>Poly\<close> is empty (\<open>None\<close>)
  or holds one object.
\<close>

record viewport =
  fbo :: handle
  fboTex :: "handle option"
  fboTexBlack :: "handle option"
  fboDep :: "handle option"
  vpw :: int
  vph :: int

definition viewport_init :: viewport where
  "viewport_init = \<lparr>fbo = 0, fboTex = None, fboTexBlack = None, fboDep = None, vpw = 0, vph = 0\<rparr>"

text \<open>
  \<open>static_cast<int>\<close> of a \<open>float\<close>: the value is truncated toward zero; outside the range
  of \<open>int\<close> the conversion is undefined.
\<close>

definition float_to_int :: "rat \<Rightarrow> int option" where
  "float_to_int x =
     (let i = (if x < 0 then \<lceil>x\<rceil> else \<lfloor>x\<rfloor>)
      in if - (2 ^ 31) \<le> i \<and> i < 2 ^ 31 then Some i else None)"

text \<open>
  Modelled from the spec: \<open>Texture::Create\<close> and \<open>Renderbuffer::Create\<close>, declared in
  \<open>engine/texture.hpp\<close> and \<open>engine/Renderbuffer.hpp\<close>, which are not among the sources at
  hand. The specification has attachments "sized to the new dimensions" and lets their
  creation fail (sections 4.1 and 7): a creation either yields a new object of the
  requested size or fails, and which of the two is decided by the parameters \<open>tex_ok\<close>
  (debug name, width, height) and \<open>rb_ok\<close> (width, height).
\<close>

definition Texture_Create ::
  "(string \<Rightarrow> int \<Rightarrow> int \<Rightarrow> bool) \<Rightarrow> string \<Rightarrow> int \<Rightarrow> int \<Rightarrow> gl_state \<Rightarrow> error + handle \<times> gl_state" where
  "Texture_Create tex_ok debugName w h g =
     (if tex_ok debugName w h
      then Inr (next_name g,
                g\<lparr>textures := (textures g)(next_name g \<mapsto> (w, h)),
                  next_name := Suc (next_name g),
                  calls := calls g @ [CreateTexture (next_name g) debugName w h]\<rparr>)
      else Inl CreateFailed)"

definition Renderbuffer_Create ::
  "(int \<Rightarrow> int \<Rightarrow> bool) \<Rightarrow> int \<Rightarrow> int \<Rightarrow> gl_state \<Rightarrow> error + handle \<times> gl_state" where
  "Renderbuffer_Create rb_ok w h g =
     (if rb_ok w h
      then Inr (next_name g,
                g\<lparr>renderbuffers := (renderbuffers g)(next_name g \<mapsto> (w, h)),
                  next_name := Suc (next_name g),
                  calls := calls g @ [CreateRenderbuffer (next_name g) w h]\<rparr>)
      else Inl CreateFailed)"

text \<open>
  Modelled from the spec: \<open>Poly\<close> (\<open>engine/Poly.hpp\<close>, not among the sources at hand), the
  exclusive owner of an attachment (section 3). Assigning to a \<open>Poly\<close> releases the object
  it held before; the right-hand side has been evaluated by then, so the release follows
  the creation of the new object.
\<close>

definition Poly_release_texture :: "handle option \<Rightarrow> gl_state \<Rightarrow> gl_state" where
  "Poly_release_texture old g =
     (case old of None \<Rightarrow> g
      | Some t \<Rightarrow> g\<lparr>textures := (textures g)(t := None), calls := calls g @ [DeleteTexture t]\<rparr>)"

definition Poly_release_renderbuffer :: "handle option \<Rightarrow> gl_state \<Rightarrow> gl_state" where
  "Poly_release_renderbuffer old g =
     (case old of None \<Rightarrow> g
      | Some r \<Rightarrow> g\<lparr>renderbuffers := (renderbuffers g)(r := None),
                     calls := calls g @ [DeleteRenderbuffer r]\<rparr>)"

definition glDeleteFramebuffers :: "handle \<Rightarrow> gl_state \<Rightarrow> gl_state" where
  "glDeleteFramebuffers f g =
     g\<lparr>framebuffers := (framebuffers g)(f := None),
       bound_framebuffer := (if bound_framebuffer g = f then 0 else bound_framebuffer g),
       calls := calls g @ [DeleteFramebuffers f]\<rparr>"

definition glGenFramebuffers :: "gl_state \<Rightarrow> handle \<times> gl_state" where
  "glGenFramebuffers g =
     (next_name g,
      g\<lparr>next_name := Suc (next_name g), calls := calls g @ [GenFramebuffers (next_name g)]\<rparr>)"

text \<open>Binding a name creates the framebuffer object behind it when it has none yet.\<close>

definition glBindFramebuffer :: "handle \<Rightarrow> gl_state \<Rightarrow> gl_state" where
  "glBindFramebuffer f g =
     g\<lparr>bound_framebuffer := f,
       framebuffers := (if f \<noteq> 0 \<and> framebuffers g f = None
          then (framebuffers g)(f \<mapsto> \<lparr>color_attachment0 = None, color_attachment1 = None,
                                     depth_attachment = None\<rparr>)
          else framebuffers g),
       calls := calls g @ [BindFramebuffer f]\<rparr>"

definition attach :: "(framebuffer \<Rightarrow> framebuffer) \<Rightarrow> gl_call \<Rightarrow> gl_state \<Rightarrow> gl_state" where
  "attach upd c g =
     g\<lparr>framebuffers := (case framebuffers g (bound_framebuffer g) of
          None \<Rightarrow> framebuffers g
        | Some fb \<Rightarrow> (framebuffers g)(bound_framebuffer g \<mapsto> upd fb)),
       calls := calls g @ [c]\<rparr>"

definition glDrawBuffers :: "nat list \<Rightarrow> gl_state \<Rightarrow> gl_state" where
  "glDrawBuffers bufs g = g\<lparr>draw_buffers := bufs, calls := calls g @ [DrawBuffers bufs]\<rparr>"

text \<open>
  \<open>poly = Texture::Create(...)\<close> and \<open>poly = Renderbuffer::Create(...)\<close>: the new object is
  created, then the one the \<open>Poly\<close> held is released.
\<close>

definition assign_texture ::
  "(string \<Rightarrow> int \<Rightarrow> int \<Rightarrow> bool) \<Rightarrow> string \<Rightarrow> int \<Rightarrow> int \<Rightarrow> handle option \<Rightarrow> gl_state
     \<Rightarrow> error + handle \<times> gl_state" where
  "assign_texture tex_ok debugName w h old g =
     (case Texture_Create tex_ok debugName w h g of
        Inl err \<Rightarrow> Inl err
      | Inr (t, g') \<Rightarrow> Inr (t, Poly_release_texture old g'))"

definition assign_renderbuffer ::
  "(int \<Rightarrow> int \<Rightarrow> bool) \<Rightarrow> int \<Rightarrow> int \<Rightarrow> handle option \<Rightarrow> gl_state \<Rightarrow> error + handle \<times> gl_state" where
  "assign_renderbuffer rb_ok w h old g =
     (case Renderbuffer_Create rb_ok w h g of
        Inl err \<Rightarrow> Inl err
      | Inr (d, g') \<Rightarrow> Inr (d, Poly_release_renderbuffer old g'))"

text \<open>Lines 598 to 605: the new framebuffer object, its attachments and its draw buffers.\<close>

definition build_framebuffer :: "handle \<Rightarrow> handle \<Rightarrow> handle \<Rightarrow> gl_state \<Rightarrow> handle \<times> gl_state" where
  "build_framebuffer t0 t1 d g =
     (case glGenFramebuffers g of (f, g1) \<Rightarrow>
        let g2 = glBindFramebuffer f g1;
            g3 = attach (\<lambda>fb. fb\<lparr>color_attachment0 := Some t0\<rparr>) (FramebufferTexture2D 0 t0) g2;
            g4 = attach (\<lambda>fb. fb\<lparr>color_attachment1 := Some t1\<rparr>) (FramebufferTexture2D 1 t1) g3;
            g5 = attach (\<lambda>fb. fb\<lparr>depth_attachment := Some d\<rparr>) (FramebufferRenderbuffer d) g4
        in (f, glDrawBuffers [0, 1] g5))"

text \<open>
  Lines 559 to 605, entered when the size has changed. The result on the left is a failed
  creation together with the locals and the context as they are at that point.
\<close>

definition reallocate_target ::
  "(string \<Rightarrow> int \<Rightarrow> int \<Rightarrow> bool) \<Rightarrow> (int \<Rightarrow> int \<Rightarrow> bool) \<Rightarrow> int \<Rightarrow> int \<Rightarrow> viewport \<times> gl_state
     \<Rightarrow> (error \<times> viewport \<times> gl_state) + viewport \<times> gl_state" where
  "reallocate_target tex_ok rb_ok w h vg =
     (case vg of (v, g) \<Rightarrow>
        let v1 = v\<lparr>vpw := w, vph := h\<rparr>;
            g1 = (if fbo v1 \<noteq> 0 then glDeleteFramebuffers (fbo v1) g else g)
        in (case assign_texture tex_ok ''FBO color att 0'' w h (fboTex v1) g1 of
              Inl err \<Rightarrow> Inl (err, v1, g1)
            | Inr (t0, g2) \<Rightarrow>
                let v2 = v1\<lparr>fboTex := Some t0\<rparr>
                in (case assign_texture tex_ok ''FBO color att 1'' w h (fboTexBlack v2) g2 of
                      Inl err \<Rightarrow> Inl (err, v2, g2)
                    | Inr (t1, g3) \<Rightarrow>
                        let v3 = v2\<lparr>fboTexBlack := Some t1\<rparr>
                        in (case assign_renderbuffer rb_ok w h (fboDep v3) g3 of
                              Inl err \<Rightarrow> Inl (err, v3, g3)
                            | Inr (d, g4) \<Rightarrow>
                                let v4 = v3\<lparr>fboDep := Some d\<rparr>
                                in (case build_framebuffer t0 t1 d g4 of
                                      (f, g5) \<Rightarrow> Inr (v4\<lparr>fbo := f\<rparr>, g5))))))"

text \<open>
  Lines 557 to 607: the test \<open>vpw != size.x || vph != size.y\<close> compares the stored
  \<open>int\<close> with the \<open>float\<close> region size; the stored size is the truncated one. (The
  comparison converts the \<open>int\<close> to \<open>float\<close>, which is exact for a stored size that came from
  truncating a \<open>float\<close>.)
\<close>

definition viewport_resize ::
  "(string \<Rightarrow> int \<Rightarrow> int \<Rightarrow> bool) \<Rightarrow> (int \<Rightarrow> int \<Rightarrow> bool) \<Rightarrow> vec2 \<Rightarrow> viewport \<times> gl_state
     \<Rightarrow> (error \<times> viewport \<times> gl_state) + viewport \<times> gl_state" where
  "viewport_resize tex_ok rb_ok size' vg =
     (case vg of (v, g) \<Rightarrow>
        if of_int (vpw v) \<noteq> fst size' \<or> of_int (vph v) \<noteq> snd size'
        then (case (float_to_int (fst size'), float_to_int (snd size')) of
                (Some w, Some h) \<Rightarrow> reallocate_target tex_ok rb_ok w h (v, g)
              | _ \<Rightarrow> Inl (CastOutOfRange, v, g))
        else Inr (v, g))"

text \<open>The sizes of the three attachments of the target, when all of them are live.\<close>

definition target_sizes :: "viewport \<times> gl_state \<Rightarrow> ((int \<times> int) \<times> (int \<times> int) \<times> (int \<times> int)) option" where
  "target_sizes vg =
     (case vg of (v, g) \<Rightarrow>
        (case framebuffers g (fbo v) of None \<Rightarrow> None
         | Some fb \<Rightarrow>
            (case (color_attachment0 fb, color_attachment1 fb, depth_attachment fb) of
               (Some t0, Some t1, Some d) \<Rightarrow>
                 (case (textures g t0, textures g t1, renderbuffers g d) of
                    (Some s0, Some s1, Some sd) \<Rightarrow> Some (s0, s1, sd)
                  | _ \<Rightarrow> None)
             | _ \<Rightarrow> None)))"

text \<open>
  The names held by the locals are names the context has handed out; the counter starts
  at 1, so 0 is never the name of an object.
\<close>

definition names_known :: "viewport \<times> gl_state \<Rightarrow> bool" where
  "names_known vg =
     (case vg of (v, g) \<Rightarrow>
        0 < next_name g \<and> fbo v < next_name g \<and>
        (case fboTex v of None \<Rightarrow> True | Some t \<Rightarrow> t < next_name g) \<and>
        (case fboTexBlack v of None \<Rightarrow> True | Some t \<Rightarrow> t < next_name g) \<and>
        (case fboDep v of None \<Rightarrow> True | Some d \<Rightarrow> d < next_name g))"


text \<open>
  The target is in step with the stored size: before the first allocation there is no
  framebuffer and the stored size is zero; afterwards the framebuffer has the three objects
  held by the locals as its attachments, each of the stored size.
\<close>

definition target_valid :: "viewport \<times> gl_state \<Rightarrow> bool" where
  "target_valid vg =
     (case vg of (v, g) \<Rightarrow>
        names_known vg \<and>
        (if fbo v = 0 then vpw v = 0 \<and> vph v = 0
         else framebuffers g (fbo v) =
                Some \<lparr>color_attachment0 = fboTex v, color_attachment1 = fboTexBlack v,
                      depth_attachment = fboDep v\<rparr> \<and>
              target_sizes vg = Some ((vpw v, vph v), (vpw v, vph v), (vpw v, vph v))))"

text \<open>
  A creation oracle in the manner of \<open>GL_MAX_TEXTURE_SIZE\<close>: sizes from 1 to the limit
  can be created.
\<close>

definition texture_limit :: "int \<Rightarrow> string \<Rightarrow> int \<Rightarrow> int \<Rightarrow> bool" where
  "texture_limit m debugName w h \<longleftrightarrow> 0 < w \<and> w \<le> m \<and> 0 < h \<and> h \<le> m"

definition renderbuffer_limit :: "int \<Rightarrow> int \<Rightarrow> int \<Rightarrow> bool" where
  "renderbuffer_limit m w h \<longleftrightarrow> 0 < w \<and> w \<le> m \<and> 0 < h \<and> h \<le> m"

text \<open>The locals and the context a resize ends with, and the error it stopped at, if any.\<close>

definition final_state :: "(error \<times> viewport \<times> gl_state) + viewport \<times> gl_state \<Rightarrow> viewport \<times> gl_state" where
  "final_state r = (case r of Inl (err, vg) \<Rightarrow> vg | Inr vg \<Rightarrow> vg)"

definition failure :: "(error \<times> viewport \<times> gl_state) + viewport \<times> gl_state \<Rightarrow> error option" where
  "failure r = (case r of Inl (err, vg) \<Rightarrow> Some err | Inr vg \<Rightarrow> None)"

text \<open>A name held by a \<open>Poly\<close> is one the context has handed out.\<close>

definition older :: "handle option \<Rightarrow> gl_state \<Rightarrow> bool" where
  "older p g = (case p of None \<Rightarrow> True | Some t \<Rightarrow> t < next_name g)"

text \<open>Line 562 on its own.\<close>

definition delete_old :: "viewport \<Rightarrow> gl_state \<Rightarrow> gl_state" where
  "delete_old v g = (if fbo v \<noteq> 0 then glDeleteFramebuffers (fbo v) g else g)"

subsection \<open>Rendering into the viewport target (lines 609 to 728)\<close>

text \<open>
  What the frame takes from outside the block: the objects created before the loop, the
  shader property \<open>CullsBackFaces\<close>, the creation oracles, the clock, the value of the
  \<open>Radial iterations\<close> control, and the clip-space position of the sun before the
  perspective divide (the product \<open>projection * viewM * vec4(targetPos, 1)\<close>, whose
  trigonometry and matrices stay outside the embedding).
\<close>

record frame_env =
  culls :: "handle \<Rightarrow> bool"
  tex_ok :: "string \<Rightarrow> int \<Rightarrow> int \<Rightarrow> bool"
  rb_ok :: "int \<Rightarrow> int \<Rightarrow> bool"
  sunShader :: handle
  radialBlurShader :: handle
  fsQuad :: handle
  clipSpace :: vec4
  currentTime :: rat
  samples :: int

text \<open>
  Lines 652 to 698: the perspective divide and the sun billboard. The billboard's model
  matrix does not enter the context's state as modelled and is left out.
\<close>

definition sun_pass :: "frame_env \<Rightarrow> gl_state \<Rightarrow> vec2 \<times> gl_state" where
  "sun_pass env g =
     (case clipSpace env of (cx, cy, cz, cw) \<Rightarrow>
        let sunCoordCenter = (cx / cw, cy / cw);
            g1 = Shader_Bind (sunShader env) g;
            g2 = Shader_Uniform (sunShader env) ''uProjection'' [] g1;
            g3 = Shader_Uniform (sunShader env) ''uView'' [] g2;
            g4 = Shader_Uniform (sunShader env) ''uModel'' [] g3
        in (sunCoordCenter, Mesh_Draw SunQuad (fsQuad env) g4))"

text \<open>
  Lines 700 to 727: state changes, uniform upload and draw of the radial blur. The blend
  function (one, one) is a constant of the pass and is not tracked.
\<close>

definition blur_pass :: "frame_env \<Rightarrow> viewport \<Rightarrow> vec2 \<Rightarrow> gl_state \<Rightarrow> error + gl_state" where
  "blur_pass env v sunCoordCenter g =
     (let sunStrength = 1;
          g1 = g\<lparr>depth_test := False\<rparr>;
          g2 = g1\<lparr>blend := True\<rparr>;
          g3 = g2\<lparr>depth_test := False\<rparr>;
          g4 = g3\<lparr>depth_mask := False\<rparr>;
          sh = radialBlurShader env;
          g5 = Shader_Bind sh g4;
          g6 = Shader_Uniform sh ''uResolution'' [of_int (vpw v), of_int (vph v)] g5;
          g7 = Shader_Uniform sh ''uCenter''
                 [fst sunCoordCenter * (1 / 2) + 1 / 2, snd sunCoordCenter * (1 / 2) + 1 / 2] g6;
          g8 = Shader_Uniform sh ''uStrength'' [sunStrength] g7;
          g9 = Shader_Uniform sh ''uTime'' [currentTime env] g8;
          g10 = Shader_Uniform sh ''uIterations'' [of_int (samples env)] g9
      in (case deref (fboTexBlack v) of Inl err \<Rightarrow> Inl err | Inr tb \<Rightarrow>
            let g11 = Texture_Bind tb g10;
                g12 = glDrawBuffers [0] g11;
                g13 = Mesh_Draw BlurQuad (fsQuad env) g12;
                g14 = glDrawBuffers [0, 1] g13;
                g15 = g14\<lparr>blend := False\<rparr>;
                g16 = g15\<lparr>depth_test := True\<rparr>
            in Inr (g16\<lparr>depth_mask := True\<rparr>)))"

definition render_viewport ::
  "frame_env \<Rightarrow> entity list \<Rightarrow> viewport \<times> gl_state \<Rightarrow> error + gl_state" where
  "render_viewport env registry vg =
     (case vg of (v, g) \<Rightarrow>
        let g1 = glBindFramebuffer (fbo v) g;
            g2 = g1\<lparr>calls := calls g1 @ [Clear]\<rparr>
        in (case scene_pass (culls env) registry g2 of Inl err \<Rightarrow> Inl err | Inr g3 \<Rightarrow>
              (case sun_pass env g3 of (sunCoordCenter, g4) \<Rightarrow>
                 blur_pass env v sunCoordCenter g4)))"

text \<open>
  Lines 552 to 731, for a frame in which the viewport window is shown: the block is skipped
  when the region has a zero side.
\<close>

definition viewport_block ::
  "frame_env \<Rightarrow> entity list \<Rightarrow> vec2 \<Rightarrow> viewport \<times> gl_state
     \<Rightarrow> (error \<times> viewport \<times> gl_state) + viewport \<times> gl_state" where
  "viewport_block env registry size' vg =
     (if fst size' \<noteq> 0 \<and> snd size' \<noteq> 0
      then (case viewport_resize (tex_ok env) (rb_ok env) size' vg of
              Inl bad \<Rightarrow> Inl bad
            | Inr (v, g) \<Rightarrow>
                (case render_viewport env registry (v, g) of
                   Inl err \<Rightarrow> Inl (err, v, g)
                 | Inr g' \<Rightarrow> Inr (v, g')))
      else Inr vg)"

text \<open>
  What a draw call drew and whether the depth test was on for it; and the same for every
  draw call of the context a block ends with.
\<close>

definition draw_depth :: "draw_call \<Rightarrow> draw_source \<times> bool" where
  "draw_depth d = (dc_source d, dc_depth_test d)"

definition frame_draws ::
  "(error \<times> viewport \<times> gl_state) + viewport \<times> gl_state \<Rightarrow> (draw_source \<times> bool) list" where
  "frame_draws r = map draw_depth (draws_of (calls (snd (final_state r))))"

text \<open>
  The environment of a frame right after startup: the quad and the two shaders made before
  the loop (lines 289 to 305), \<open>samples\<close> at its initial 20 (line 502), and a context
  that creates images up to 16384 pixels a side.
\<close>

definition startup_env :: "vec4 \<Rightarrow> rat \<Rightarrow> frame_env" where
  "startup_env clip t =
     \<lparr>culls = (\<lambda>_. True), tex_ok = texture_limit 16384, rb_ok = renderbuffer_limit 16384,
      sunShader = 3, radialBlurShader = 2, fsQuad = 1, clipSpace = clip, currentTime = t,
      samples = 20\<rparr>"

subsection \<open>The radial blur fragment shader\<close>

text \<open>
  The fragment stage of \<open>src/unnamed/part_000\<close>. The shader declares the uniforms
  \<open>uResolution\<close>, \<open>uTime\<close> and the sampler \<open>uChannel0\<close>. A uniform that was never set
  reads as zero. Division is that of the rationals, with \<open>x / 0 = 0\<close> where the shader would
  produce an infinity or a NaN: the embedding speaks for the shader only where
  \<open>uResolution\<close> has no zero component and the total weight is not zero. Rounding is
  left out, so a value computed here can differ from the shader's in the last places.
\<close>

definition uniform_float :: "(string \<rightharpoonup> rat list) \<Rightarrow> string \<Rightarrow> rat" where
  "uniform_float u nm = (case u nm of Some [x] \<Rightarrow> x | _ \<Rightarrow> 0)"

definition uniform_vec2 :: "(string \<rightharpoonup> rat list) \<Rightarrow> string \<Rightarrow> vec2" where
  "uniform_vec2 u nm = (case u nm of Some [x, y] \<Rightarrow> (x, y) | _ \<Rightarrow> (0, 0))"

definition fract :: "rat \<Rightarrow> rat" where
  "fract x = x - of_int \<lfloor>x\<rfloor>"

definition hash12 :: "vec2 \<Rightarrow> rat" where
  "hash12 p =
     (case p of (px, py) \<Rightarrow>
        let ax = fract (px * (1031 / 10000));
            ay = fract (py * (1031 / 10000));
            az = fract (px * (1031 / 10000));
            d = ax * (ay + 3333 / 100) + ay * (az + 3333 / 100) + az * (ax + 3333 / 100);
            bx = ax + d; by' = ay + d; bz = az + d
        in fract ((bx + by') * bz))"

text \<open>\<open>getSample\<close>: the scalar \<open>uTime * 0.1\<close> is added to both coordinates.\<close>

definition getSample :: "(string \<rightharpoonup> rat list) \<Rightarrow> (vec2 \<Rightarrow> vec4) \<Rightarrow> vec2 \<Rightarrow> vec4" where
  "getSample u uChannel0 coord =
     uChannel0 (fst coord + uniform_float u ''uTime'' * (1 / 10),
                snd coord + uniform_float u ''uTime'' * (1 / 10))"

definition rgb :: "vec4 \<Rightarrow> vec3" where
  "rgb c = (case c of (r, g, b, a) \<Rightarrow> (r, g, b))"

text \<open>
  The sample fetched at a given \<open>percent\<close>:
  \<open>getSample(vUv + toCenter * percent / uResolution).rgb\<close>, scaled by \<open>strength\<close>.
\<close>

definition blur_sample ::
  "(string \<rightharpoonup> rat list) \<Rightarrow> (vec2 \<Rightarrow> vec4) \<Rightarrow> vec2 \<Rightarrow> vec2 \<Rightarrow> rat \<Rightarrow> rat \<Rightarrow> vec3" where
  "blur_sample u uChannel0 vUv toCenter strength percent =
     (case uniform_vec2 u ''uResolution'' of (rx, ry) \<Rightarrow>
        (case rgb (getSample u uChannel0
                     (fst vUv + fst toCenter * percent / rx, snd vUv + snd toCenter * percent / ry)) of
           (r, g, b) \<Rightarrow> (r * strength, g * strength, b * strength)))"

text \<open>
  The \<open>for\<close> loop of \<open>main\<close>, with the loop variable \<open>t\<close> and the two accumulators
  \<open>color\<close> and \<open>total\<close> (written \<open>total'\<close>); \<open>smp\<close> is the sample as a function of \<open>percent\<close>.
\<close>

function blur_loop :: "(rat \<Rightarrow> vec3) \<Rightarrow> rat \<Rightarrow> rat \<Rightarrow> rat \<Rightarrow> vec3 \<times> rat \<Rightarrow> vec3 \<times> rat" where
  "blur_loop smp jitter iterations t acc =
     (if t < iterations
      then (case acc of ((cr, cg, cb), total') \<Rightarrow>
              let percent = (t + jitter) / iterations;
                  weight = 4 * (percent - percent * percent)
              in (case smp percent of (sr, sg, sb) \<Rightarrow>
                    blur_loop smp jitter iterations (t + 1)
                      ((cr + sr * weight, cg + sg * weight, cb + sb * weight), total' + weight)))
      else acc)"
  by pat_completeness auto
termination
  by (relation "measure (\<lambda>(smp, jitter, iterations, t, acc). nat \<lceil>iterations - t\<rceil>)")
     (auto simp: nat_less_iff ceiling_less_iff; linarith)+

declare blur_loop.simps [simp del]

text \<open>
  The local \<open>jitter\<close> of \<open>main\<close>, as a function of everything \<open>main\<close> can read: the
  uniforms, the sampler, \<open>vUv\<close> and \<open>gl_FragCoord.xy\<close>.
\<close>

definition main_jitter ::
  "(string \<rightharpoonup> rat list) \<Rightarrow> (vec2 \<Rightarrow> vec4) \<Rightarrow> vec2 \<Rightarrow> vec2 \<Rightarrow> rat" where
  "main_jitter u uChannel0 vUv fragCoord = hash12 fragCoord"

text \<open>
  The fragment stage \<open>main\<close>: inputs are the program's uniforms, the bound sampler, the
  varying \<open>vUv\<close> and \<open>gl_FragCoord.xy\<close>; the result is \<open>outColor\<close>.
\<close>

definition radial_blur_main ::
  "(string \<rightharpoonup> rat list) \<Rightarrow> (vec2 \<Rightarrow> vec4) \<Rightarrow> vec2 \<Rightarrow> vec2 \<Rightarrow> vec4" where
  "radial_blur_main u uChannel0 vUv fragCoord =
     (let strength = 1;
          center = (1 / 2, 1 / 2);
          uResolution = uniform_vec2 u ''uResolution'';
          toCenter = ((fst center - fst vUv) * fst uResolution,
                      (snd center - snd vUv) * snd uResolution);
          jitter = main_jitter u uChannel0 vUv fragCoord;
          iterations = 40
      in (case blur_loop (blur_sample u uChannel0 vUv toCenter strength) jitter iterations 0
                 ((0, 0, 0), 0) of
            ((cr, cg, cb), total') \<Rightarrow> (cr / total', cg / total', cb / total', 1)))"

text \<open>
  The blur as the specification words it: \<open>N\<close> samples at the fractions
  \<open>p = (t + jitter) / N\<close> for \<open>t\<close> in \<open>[0, N)\<close>, each weighted by \<open>4 p (1 - p)\<close>, and
  the weighted sum divided by the sum of the weights.
\<close>

definition parabolic_weight :: "rat \<Rightarrow> rat" where
  "parabolic_weight p = 4 * p * (1 - p)"

definition sample_fractions :: "nat \<Rightarrow> rat \<Rightarrow> rat list" where
  "sample_fractions N jitter = map (\<lambda>t. (of_nat t + jitter) / of_nat N) [0..<N]"

definition red :: "vec3 \<Rightarrow> rat" where "red c = fst c"
definition green :: "vec3 \<Rightarrow> rat" where "green c = fst (snd c)"
definition blue :: "vec3 \<Rightarrow> rat" where "blue c = snd (snd c)"

definition weighted_average :: "(rat \<times> vec3) list \<Rightarrow> vec3" where
  "weighted_average ws =
     (let W = sum_list (map fst ws)
      in (sum_list (map (\<lambda>(w, c). red c * w) ws) / W,
          sum_list (map (\<lambda>(w, c). green c * w) ws) / W,
          sum_list (map (\<lambda>(w, c). blue c * w) ws) / W))"

definition claimed_blur :: "nat \<Rightarrow> rat \<Rightarrow> (rat \<Rightarrow> vec3) \<Rightarrow> vec3" where
  "claimed_blur N jitter smp =
     weighted_average (map (\<lambda>p. (parabolic_weight p, smp p)) (sample_fractions N jitter))"

text \<open>The sample function \<open>main\<close> hands to its loop, as a function of \<open>main\<close>'s inputs.\<close>

definition main_sample ::
  "(string \<rightharpoonup> rat list) \<Rightarrow> (vec2 \<Rightarrow> vec4) \<Rightarrow> vec2 \<Rightarrow> rat \<Rightarrow> vec3" where
  "main_sample u uChannel0 vUv =
     blur_sample u uChannel0 vUv
       ((1 / 2 - fst vUv) * fst (uniform_vec2 u ''uResolution''),
        (1 / 2 - snd vUv) * snd (uniform_vec2 u ''uResolution'')) 1"

text \<open>
  A source texture of 800 columns that is white in columns 146 to 151 and black elsewhere, and the
  uniforms of the blur program for an 800 by 600 viewport at time 0 with a given value of
  the \<open>Radial iterations\<close> control and the sun at the centre of the screen.
\<close>

definition white_columns :: "vec2 \<Rightarrow> vec4" where
  "white_columns c =
     (if 146 / 800 \<le> fst c \<and> fst c < 152 / 800 then (1, 1, 1, 1) else (0, 0, 0, 1))"

definition blur_uniforms :: "rat \<Rightarrow> string \<rightharpoonup> rat list" where
  "blur_uniforms n = [''uResolution'' \<mapsto> [800, 600], ''uCenter'' \<mapsto> [1 / 2, 1 / 2],
     ''uStrength'' \<mapsto> [1], ''uTime'' \<mapsto> [0], ''uIterations'' \<mapsto> [n]]"

subsection \<open>ResourceManager (lines 166 to 207)\<close>

text \<open>
  The two caches map a resource string to a \<open>std::weak_ptr\<close>; a weak pointer made from a
  null shared pointer is empty (\<open>None\<close>), otherwise it observes an object. \<open>use_count\<close>
  is the number of shared pointers that own an object; an object is alive while it is
  positive, and \<open>lock\<close> succeeds exactly then. Objects are named by a counter. \<open>loads\<close>
  lists the resources loaded so far, oldest first.
\<close>

datatype resource_kind = MeshResource | ShaderResource

record resources =
  mMeshes :: "string \<rightharpoonup> handle option"
  mShaders :: "string \<rightharpoonup> handle option"
  use_count :: "handle \<Rightarrow> nat"
  next_object :: handle
  loads :: "(resource_kind \<times> string) list"

definition resources_init :: resources where
  "resources_init = \<lparr>mMeshes = Map.empty, mShaders = Map.empty, use_count = (\<lambda>_. 0),
     next_object = 1, loads = []\<rparr>"

text \<open>
  \<open>weak_ptr::lock\<close>: a shared pointer to the observed object when it is alive (one more
  owner), the null pointer otherwise.
\<close>

definition lock :: "handle option \<Rightarrow> resources \<Rightarrow> handle option \<times> resources" where
  "lock wp st =
     (case wp of None \<Rightarrow> (None, st)
      | Some h \<Rightarrow> if 0 < use_count st h
                  then (Some h, st\<lparr>use_count := (use_count st)(h := Suc (use_count st h))\<rparr>)
                  else (None, st))"

text \<open>A new object with one owner.\<close>

definition new_object :: "resources \<Rightarrow> handle \<times> resources" where
  "new_object st =
     (next_object st,
      st\<lparr>use_count := (use_count st)(next_object st := 1), next_object := Suc (next_object st)\<rparr>)"

text \<open>
  \<open>load_mesh\<close> returns the null pointer when the importer fails or the scene has no mesh;
  \<open>mesh_loadable\<close> says for which resources it succeeds.
\<close>

definition load_mesh :: "(string \<Rightarrow> bool) \<Rightarrow> string \<Rightarrow> resources \<Rightarrow> handle option \<times> resources" where
  "load_mesh mesh_loadable resource st =
     (let st1 = st\<lparr>loads := loads st @ [(MeshResource, resource)]\<rparr>
      in if mesh_loadable resource
         then (case new_object st1 of (h, st2) \<Rightarrow> (Some h, st2))
         else (None, st1))"

definition GetMesh :: "(string \<Rightarrow> bool) \<Rightarrow> string \<Rightarrow> resources \<Rightarrow> handle option \<times> resources" where
  "GetMesh mesh_loadable resource st =
     (case (case mMeshes st resource of
              None \<Rightarrow> (None, st)
            | Some wp \<Rightarrow> lock wp st) of
        (Some h, st1) \<Rightarrow> (Some h, st1)
      | (None, st1) \<Rightarrow>
          (case load_mesh mesh_loadable resource st1 of
             (ref, st2) \<Rightarrow> (ref, st2\<lparr>mMeshes := (mMeshes st2)(resource \<mapsto> ref)\<rparr>)))"

text \<open>
  Modelled from the spec: \<open>Shader::Create\<close> (\<open>engine/shader.hpp\<close>, not among the sources at
  hand); the shader provider of section 6 returns a shader, so
  \<open>Shader::Create(...).MakeUnique()\<close> yields an object.
\<close>

definition GetShader :: "string \<Rightarrow> resources \<Rightarrow> handle option \<times> resources" where
  "GetShader resource st =
     (case (case mShaders st resource of
              None \<Rightarrow> (None, st)
            | Some wp \<Rightarrow> lock wp st) of
        (Some h, st1) \<Rightarrow> (Some h, st1)
      | (None, st1) \<Rightarrow>
          (case new_object (st1\<lparr>loads := loads st1 @ [(ShaderResource, resource)]\<rparr>) of
             (h, st2) \<Rightarrow> (Some h, st2\<lparr>mShaders := (mShaders st2)(resource \<mapsto> Some h)\<rparr>)))"

text \<open>
  What the rest of the program can do between two calls: ask for a mesh or a shader, copy
  a shared pointer it holds, or drop one. Only a live object has a shared pointer to copy
  or drop.
\<close>

datatype client_op = CallGetMesh string | CallGetShader string | CopyRef handle | DropRef handle

fun client_step :: "(string \<Rightarrow> bool) \<Rightarrow> client_op \<Rightarrow> resources \<Rightarrow> resources" where
  "client_step ml (CallGetMesh r) st = snd (GetMesh ml r st)"
| "client_step ml (CallGetShader r) st = snd (GetShader r st)"
| "client_step ml (CopyRef h) st =
     (if 0 < use_count st h then st\<lparr>use_count := (use_count st)(h := Suc (use_count st h))\<rparr> else st)"
| "client_step ml (DropRef h) st =
     (if 0 < use_count st h then st\<lparr>use_count := (use_count st)(h := use_count st h - 1)\<rparr> else st)"

fun client_run :: "(string \<Rightarrow> bool) \<Rightarrow> client_op list \<Rightarrow> resources \<Rightarrow> resources" where
  "client_run ml [] st = st"
| "client_run ml (c # cs) st = client_run ml cs (client_step ml c st)"

text \<open>Every live object has a name the counter has passed.\<close>

definition objects_named :: "resources \<Rightarrow> bool" where
  "objects_named st \<longleftrightarrow> (\<forall>h. 0 < use_count st h \<longrightarrow> h < next_object st)"


text \<open>
  The invariant behind the cache: the object handed out for a resource string stays the
  cache's entry for that string for as long as it is alive.
\<close>

definition mesh_cached :: "string \<Rightarrow> handle \<Rightarrow> resources \<Rightarrow> bool" where
  "mesh_cached r h st \<longleftrightarrow>
     objects_named st \<and> h < next_object st \<and> (0 < use_count st h \<longrightarrow> mMeshes st r = Some (Some h))"

definition shader_cached :: "string \<Rightarrow> handle \<Rightarrow> resources \<Rightarrow> bool" where
  "shader_cached r h st \<longleftrightarrow>
     objects_named st \<and> h < next_object st \<and> (0 < use_count st h \<longrightarrow> mShaders st r = Some (Some h))"

section \<open>Properties\<close>

subsection \<open>Icon snapshot cadence\<close>

lemma icon_tick_fired_iff:
  "fst (snd (icon_tick w h dt s)) \<longleftrightarrow> (w \<noteq> 0 \<and> h \<noteq> 0 \<and> timer s + dt > 1 / 8)"
  by (simp add: icon_tick_def Let_def)

lemma icon_run_quiet:
  "True \<notin> set (snd (icon_run s fs)) \<Longrightarrow>
   timer (fst (icon_run s fs)) = timer s + counted_time fs"
proof (induction fs arbitrary: s)
  case Nil
  then show ?case by simp
next
  case (Cons f fs)
  obtain w h dt where f: "f = (w, h, dt)" by (cases f)
  obtain s' fired a where t: "icon_tick w h dt s = (s', fired, a)" by (cases "icon_tick w h dt s")
  obtain s'' bs where r: "icon_run s' fs = (s'', bs)" by (cases "icon_run s' fs")
  from Cons.prems f t r have nf: "\<not> fired" and q: "True \<notin> set bs"
    by auto
  from q r Cons.IH [of s'] have ih: "timer s'' = timer s' + counted_time fs" by simp
  from t nf have "timer s' = timer s + (if w \<noteq> 0 \<and> h \<noteq> 0 then dt else 0)"
    by (auto simp: icon_tick_def Let_def split: if_splits)
  with ih f t r show ?case by simp
qed

text \<open>
  C8. The snapshot body runs in a frame only if the accumulator, with this frame's
  \<open>deltaTime\<close> added, has passed 1/8 second (so it has reached it), and then the
  accumulator is back at zero. A frame in which it does not run leaves the accumulator
  at the accumulated value, and over any stretch of frames without a snapshot the
  accumulator grows by exactly the time of the frames counted in that stretch.
\<close>

theorem icon_snapshot_cadence:
  "(case icon_tick w h dt s of (s', fired, _) \<Rightarrow>
      (fired \<longrightarrow> timer s + dt \<ge> 1 / 8 \<and> timer s' = 0) \<and>
      (\<not> fired \<longrightarrow> timer s' = timer s + (if w \<noteq> 0 \<and> h \<noteq> 0 then dt else 0) \<and>
                   (w \<noteq> 0 \<and> h \<noteq> 0 \<longrightarrow> timer s' \<le> 1 / 8))) \<and>
   (True \<notin> set (snd (icon_run s0 fs)) \<longrightarrow>
      timer (fst (icon_run s0 fs)) = timer s0 + counted_time fs)"
proof -
  have "case icon_tick w h dt s of (s', fired, _) \<Rightarrow>
      (fired \<longrightarrow> timer s + dt \<ge> 1 / 8 \<and> timer s' = 0) \<and>
      (\<not> fired \<longrightarrow> timer s' = timer s + (if w \<noteq> 0 \<and> h \<noteq> 0 then dt else 0) \<and>
                   (w \<noteq> 0 \<and> h \<noteq> 0 \<longrightarrow> timer s' \<le> 1 / 8))"
    by (simp add: icon_tick_def Let_def)
  then show ?thesis using icon_run_quiet by blast
qed

theorem icon_snapshot_cadence_witness:
  "icon_run icon_timer_init [(800, 600, 1 / 10), (800, 600, 1 / 10), (0, 0, 1), (800, 600, 1 / 10)]
     = (\<lparr>rotateDelta = 1 / 10, timer = 1 / 10\<rparr>, [False, True, False, False]) \<and>
   (case icon_tick 800 600 (1 / 10) \<lparr>rotateDelta = 1 / 10, timer = 1 / 10\<rparr> of (s', fired, _) \<Rightarrow>
      fired \<and> (1 / 8 :: rat) \<le> 1 / 10 + 1 / 10 \<and> timer s' = 0) \<and>
   timer (fst (icon_run icon_timer_init [(800, 600, 1 / 10), (0, 0, 1)])) = 1 / 10"
  using icon_snapshot_cadence [where w = 800 and h = 600 and dt = "1 / 10"
      and s = "\<lparr>rotateDelta = 1 / 10, timer = 1 / 10\<rparr>" and ?s0.0 = icon_timer_init
      and fs = "[(800, 600, 1 / 10), (0, 0, 1)]"]
  by (simp add: icon_tick_def icon_timer_init_def Let_def)

subsection \<open>Scene pass and icon pass\<close>

lemma draws_of_append: "draws_of (xs @ ys) = draws_of xs @ draws_of ys"
  by (induction xs rule: draws_of.induct) simp_all

lemma scene_entity_depth:
  "\<exists>g'. scene_entity culls' e g = Inr g' \<and>
     map draw_depth (draws_of (calls g')) =
       map draw_depth (draws_of (calls g)) @
         (if scene_drawable e then [(EntityMesh (fst e), depth_test g)] else []) \<and>
     depth_test g' = depth_test g"
  by (cases e)
     (auto simp: scene_entity_def scene_drawable_def deref_def Let_def Shader_Bind_def
        Shader_Uniform_def Texture_Bind_def Mesh_Draw_def draws_of_append draw_depth_def)

lemma for_each_scene_depth:
  "\<exists>g'. for_each (scene_entity culls') es g = Inr g' \<and>
     map draw_depth (draws_of (calls g')) =
       map draw_depth (draws_of (calls g)) @
         map (\<lambda>e. (EntityMesh (fst e), depth_test g)) (filter scene_drawable es) \<and>
     depth_test g' = depth_test g"
proof (induction es arbitrary: g)
  case Nil
  show ?case by simp
next
  case (Cons e es)
  from scene_entity_depth [of culls' e g] obtain g1 where
    1: "scene_entity culls' e g = Inr g1" and
    2: "map draw_depth (draws_of (calls g1)) =
       map draw_depth (draws_of (calls g)) @
         (if scene_drawable e then [(EntityMesh (fst e), depth_test g)] else [])" and
    3: "depth_test g1 = depth_test g"
    by blast
  from Cons.IH [of g1] obtain g2 where
    4: "for_each (scene_entity culls') es g1 = Inr g2" and
    5: "map draw_depth (draws_of (calls g2)) =
       map draw_depth (draws_of (calls g1)) @
         map (\<lambda>e. (EntityMesh (fst e), depth_test g1)) (filter scene_drawable es)" and
    6: "depth_test g2 = depth_test g1"
    by blast
  from 1 2 3 4 5 6 show ?case by simp
qed

lemma scene_entity_binding:
  "\<exists>g'. scene_entity culls' e g = Inr g' \<and>
     map draw_binding (draws_of (calls g')) =
       map draw_binding (draws_of (calls g)) @
         (if scene_drawable e then [entity_binding e] else []) \<and>
     (\<not> scene_drawable e \<longrightarrow> g' = g)"
  by (cases e)
     (auto simp: scene_entity_def scene_drawable_def deref_def Let_def Shader_Bind_def
        Shader_Uniform_def Texture_Bind_def Mesh_Draw_def draws_of_append draw_binding_def
        entity_binding_def)

lemma for_each_scene_binding:
  "\<exists>g'. for_each (scene_entity culls') es g = Inr g' \<and>
     map draw_binding (draws_of (calls g')) =
       map draw_binding (draws_of (calls g)) @ map entity_binding (filter scene_drawable es) \<and>
     (filter scene_drawable es = [] \<longrightarrow> g' = g)"
proof (induction es arbitrary: g)
  case Nil
  show ?case by simp
next
  case (Cons e es)
  from scene_entity_binding [of culls' e g] obtain g1 where
    1: "scene_entity culls' e g = Inr g1" and
    2: "map draw_binding (draws_of (calls g1)) =
       map draw_binding (draws_of (calls g)) @
         (if scene_drawable e then [entity_binding e] else [])" and
    3: "\<not> scene_drawable e \<longrightarrow> g1 = g"
    by blast
  from Cons.IH [of g1] obtain g2 where
    4: "for_each (scene_entity culls') es g1 = Inr g2" and
    5: "map draw_binding (draws_of (calls g2)) =
       map draw_binding (draws_of (calls g1)) @ map entity_binding (filter scene_drawable es)" and
    6: "filter scene_drawable es = [] \<longrightarrow> g2 = g1"
    by blast
  from 1 2 3 4 5 6 show ?case by simp
qed

text \<open>
  C7. The scene pass never fails, whatever the registry holds. The draw calls it adds are,
  in the order of the view, exactly one for each entity whose mesh, shader and texture are
  all non-null and whose tag is not \<open>__icon\<close>, and each is issued with that entity's own
  mesh, with its shader bound and given the three matrices, and with its texture bound.
  The other entities are skipped without a trace: a pass that draws nothing leaves the
  context as it was.
\<close>

theorem scene_pass_draws_exactly:
  "\<exists>g'. scene_pass culls' registry g = Inr g' \<and>
     map draw_binding (draws_of (calls g')) =
       map draw_binding (draws_of (calls g)) @
       map entity_binding (filter scene_drawable (registry_view registry)) \<and>
     (filter scene_drawable (registry_view registry) = [] \<longrightarrow> g' = g)"
  unfolding scene_pass_def by (rule for_each_scene_binding)

theorem scene_pass_draws_exactly_witness:
  "(\<exists>g'. scene_pass (\<lambda>_. False)
          [editor_entity 0 ''default'' (Some 1) (Some 2) (Some 3),
           editor_entity 1 ''default'' None (Some 2) (Some 3),
           editor_entity 2 ''default'' (Some 1) None (Some 3),
           editor_entity 3 ''default'' (Some 1) (Some 2) None,
           editor_entity 4 ''__icon'' (Some 1) (Some 2) (Some 3),
           \<lparr>entity_id = 5, transformComponent = None, meshFilterComponent = None,
            meshRendererComponent = None\<rparr>,
           editor_entity 6 ''default'' (Some 4) (Some 5) (Some 6)] gl_init = Inr g' \<and>
        map draw_binding (draws_of (calls g')) =
          [(EntityMesh 0, Some 1, Some 2, Some 3, True),
           (EntityMesh 6, Some 4, Some 5, Some 6, True)]) \<and>
   scene_pass (\<lambda>_. False)
          [editor_entity 1 ''default'' None (Some 2) (Some 3),
           editor_entity 2 ''default'' (Some 1) None (Some 3),
           editor_entity 3 ''default'' (Some 1) (Some 2) None,
           editor_entity 4 ''__icon'' (Some 1) (Some 2) (Some 3)] gl_init = Inr gl_init"
proof -
  have a: "\<exists>g'. scene_pass (\<lambda>_. False)
          [editor_entity 0 ''default'' (Some 1) (Some 2) (Some 3),
           editor_entity 1 ''default'' None (Some 2) (Some 3),
           editor_entity 2 ''default'' (Some 1) None (Some 3),
           editor_entity 3 ''default'' (Some 1) (Some 2) None,
           editor_entity 4 ''__icon'' (Some 1) (Some 2) (Some 3),
           \<lparr>entity_id = 5, transformComponent = None, meshFilterComponent = None,
            meshRendererComponent = None\<rparr>,
           editor_entity 6 ''default'' (Some 4) (Some 5) (Some 6)] gl_init = Inr g' \<and>
        map draw_binding (draws_of (calls g')) =
          [(EntityMesh 0, Some 1, Some 2, Some 3, True),
           (EntityMesh 6, Some 4, Some 5, Some 6, True)]"
    using scene_pass_draws_exactly [of "\<lambda>_. False"
          "[editor_entity 0 ''default'' (Some 1) (Some 2) (Some 3),
           editor_entity 1 ''default'' None (Some 2) (Some 3),
           editor_entity 2 ''default'' (Some 1) None (Some 3),
           editor_entity 3 ''default'' (Some 1) (Some 2) None,
           editor_entity 4 ''__icon'' (Some 1) (Some 2) (Some 3),
           \<lparr>entity_id = 5, transformComponent = None, meshFilterComponent = None,
            meshRendererComponent = None\<rparr>,
           editor_entity 6 ''default'' (Some 4) (Some 5) (Some 6)]" gl_init]
    by (simp add: editor_entity_def scene_drawable_def entity_binding_def gl_init_def)
  have b: "scene_pass (\<lambda>_. False)
          [editor_entity 1 ''default'' None (Some 2) (Some 3),
           editor_entity 2 ''default'' (Some 1) None (Some 3),
           editor_entity 3 ''default'' (Some 1) (Some 2) None,
           editor_entity 4 ''__icon'' (Some 1) (Some 2) (Some 3)] gl_init = Inr gl_init"
    using scene_pass_draws_exactly [of "\<lambda>_. False"
          "[editor_entity 1 ''default'' None (Some 2) (Some 3),
           editor_entity 2 ''default'' (Some 1) None (Some 3),
           editor_entity 3 ''default'' (Some 1) (Some 2) None,
           editor_entity 4 ''__icon'' (Some 1) (Some 2) (Some 3)]" gl_init]
    by (auto simp: editor_entity_def scene_drawable_def)
  from a b show ?thesis by blast
qed

text \<open>
  C4. The icon pass is claimed to skip entities with a null shader, texture or mesh. Its
  loop tests the tag only: an entity tagged \<open>__icon\<close> with any of the three pointers
  null makes the pass dereference a null pointer, while the scene pass skips the same
  kind of entity.
\<close>

theorem icon_pass_null_dereference:
  "icon_pass [editor_entity 0 ''__icon'' (Some 1) None (Some 3)] gl_init = Inl NullDereference \<and>
   icon_pass [editor_entity 0 ''__icon'' (Some 1) (Some 2) None] gl_init = Inl NullDereference \<and>
   icon_pass [editor_entity 0 ''__icon'' None (Some 2) (Some 3)] gl_init = Inl NullDereference \<and>
   icon_pass [editor_entity 0 ''__icon'' None None None] gl_init = Inl NullDereference \<and>
   scene_pass (\<lambda>_. True) [editor_entity 0 ''default'' None None None] gl_init = Inr gl_init"
  by (simp add: icon_pass_def icon_entity_def scene_pass_def scene_entity_def editor_entity_def
        deref_def Let_def)

subsection \<open>Viewport render target\<close>

lemma float_to_int_of_int:
  "- (2 ^ 31) \<le> w \<Longrightarrow> w < 2 ^ 31 \<Longrightarrow> float_to_int (of_int w) = Some w"
  by (simp add: float_to_int_def Let_def)

lemma assign_texture_cases:
  assumes "older old g"
  shows "(\<not> tex_ok' nm w h \<and> assign_texture tex_ok' nm w h old g = Inl CreateFailed) \<or>
         (tex_ok' nm w h \<and> (\<exists>g'. assign_texture tex_ok' nm w h old g = Inr (next_name g, g') \<and>
            next_name g' = Suc (next_name g) \<and>
            textures g' (next_name g) = Some (w, h) \<and>
            (\<forall>t. t < next_name g \<and> Some t \<noteq> old \<longrightarrow> textures g' t = textures g t) \<and>
            renderbuffers g' = renderbuffers g \<and> framebuffers g' = framebuffers g \<and>
            depth_test g' = depth_test g \<and>
            (\<exists>cs. calls g' = calls g @ cs \<and> draws_of cs = [])))"
  using assms
  by (cases old)
     (auto simp: assign_texture_def Texture_Create_def Poly_release_texture_def older_def)

lemma assign_renderbuffer_cases:
  assumes "older old g"
  shows "(\<not> rb_ok' w h \<and> assign_renderbuffer rb_ok' w h old g = Inl CreateFailed) \<or>
         (rb_ok' w h \<and> (\<exists>g'. assign_renderbuffer rb_ok' w h old g = Inr (next_name g, g') \<and>
            next_name g' = Suc (next_name g) \<and>
            renderbuffers g' (next_name g) = Some (w, h) \<and>
            textures g' = textures g \<and> framebuffers g' = framebuffers g \<and>
            depth_test g' = depth_test g \<and>
            (\<exists>cs. calls g' = calls g @ cs \<and> draws_of cs = [])))"
  using assms
  by (cases old)
     (auto simp: assign_renderbuffer_def Renderbuffer_Create_def Poly_release_renderbuffer_def
        older_def)

lemma build_framebuffer_result:
  assumes "0 < next_name g"
  shows "\<exists>g'. build_framebuffer t0 t1 d g = (next_name g, g') \<and>
     next_name g' = Suc (next_name g) \<and>
     framebuffers g' (next_name g) =
        Some \<lparr>color_attachment0 = Some t0, color_attachment1 = Some t1, depth_attachment = Some d\<rparr> \<and>
     (\<forall>f. f \<noteq> next_name g \<longrightarrow> framebuffers g' f = framebuffers g f) \<and>
     textures g' = textures g \<and> renderbuffers g' = renderbuffers g \<and>
     depth_test g' = depth_test g \<and>
     (\<exists>cs. calls g' = calls g @ cs \<and> draws_of cs = [])"
  using assms
  by (cases "framebuffers g (next_name g)")
     (simp_all add: build_framebuffer_def glGenFramebuffers_def glBindFramebuffer_def attach_def
        glDrawBuffers_def Let_def)


lemma delete_old_facts:
  "next_name (delete_old v g) = next_name g"
  "textures (delete_old v g) = textures g"
  "renderbuffers (delete_old v g) = renderbuffers g"
  "fbo v \<noteq> 0 \<Longrightarrow> framebuffers (delete_old v g) (fbo v) = None"
  "fbo v \<noteq> 0 \<Longrightarrow> calls (delete_old v g) = calls g @ [DeleteFramebuffers (fbo v)]"
  "depth_test (delete_old v g) = depth_test g"
  "draws_of (calls (delete_old v g)) = draws_of (calls g)"
  by (simp_all add: delete_old_def glDeleteFramebuffers_def draws_of_append)

lemma reallocate_target_unfold:
  "reallocate_target tex_ok' rb_ok' w h (v, g) =
     (case assign_texture tex_ok' ''FBO color att 0'' w h (fboTex v) (delete_old v g) of
        Inl err \<Rightarrow> Inl (err, v\<lparr>vpw := w, vph := h\<rparr>, delete_old v g)
      | Inr (t0, g2) \<Rightarrow>
          (case assign_texture tex_ok' ''FBO color att 1'' w h (fboTexBlack v) g2 of
             Inl err \<Rightarrow> Inl (err, v\<lparr>vpw := w, vph := h, fboTex := Some t0\<rparr>, g2)
           | Inr (t1, g3) \<Rightarrow>
               (case assign_renderbuffer rb_ok' w h (fboDep v) g3 of
                  Inl err \<Rightarrow> Inl (err, v\<lparr>vpw := w, vph := h, fboTex := Some t0,
                                          fboTexBlack := Some t1\<rparr>, g3)
                | Inr (d, g4) \<Rightarrow>
                    Inr (v\<lparr>vpw := w, vph := h, fboTex := Some t0, fboTexBlack := Some t1,
                           fboDep := Some d, fbo := fst (build_framebuffer t0 t1 d g4)\<rparr>,
                         snd (build_framebuffer t0 t1 d g4)))))"
  by (simp add: reallocate_target_def delete_old_def Let_def split_beta
        split: sum.splits prod.splits)

lemma reallocate_target_ok:
  assumes ok: "tex_ok' ''FBO color att 0'' w h" "tex_ok' ''FBO color att 1'' w h" "rb_ok' w h"
    and nk: "names_known (v, g)"
  shows "\<exists>v' g'. reallocate_target tex_ok' rb_ok' w h (v, g) = Inr (v', g') \<and>
           vpw v' = w \<and> vph v' = h \<and> fbo v' \<noteq> 0 \<and> names_known (v', g') \<and>
           target_sizes (v', g') = Some ((w, h), (w, h), (w, h)) \<and>
           framebuffers g' (fbo v') =
             Some \<lparr>color_attachment0 = fboTex v', color_attachment1 = fboTexBlack v',
                   depth_attachment = fboDep v'\<rparr> \<and>
           depth_test g' = depth_test g \<and>
           draws_of (calls g') = draws_of (calls g) \<and>
           fbo v' = next_name g + 3 \<and> next_name g' = next_name g + 4"
proof -
  let ?n = "next_name g"
  let ?g1 = "delete_old v g"
  from nk have pos: "0 < ?n" and o0: "older (fboTex v) ?g1"
    and o1: "older (fboTexBlack v) ?g1" and o2: "older (fboDep v) ?g1"
    by (auto simp: names_known_def older_def delete_old_facts split: option.splits)
  from assign_texture_cases [OF o0, of tex_ok' "''FBO color att 0''" w h] ok(1)
  obtain g2 where a2: "assign_texture tex_ok' ''FBO color att 0'' w h (fboTex v) ?g1 = Inr (?n, g2)"
    and n2: "next_name g2 = Suc ?n" and t2: "textures g2 ?n = Some (w, h)"
    and r2: "renderbuffers g2 = renderbuffers g"
    and d2: "depth_test g2 = depth_test g" "draws_of (calls g2) = draws_of (calls g)"
    by (auto simp: delete_old_facts draws_of_append)
  from o1 n2 have o1': "older (fboTexBlack v) g2"
    by (auto simp: older_def delete_old_facts split: option.splits)
  from o1 have ne1: "Some ?n \<noteq> fboTexBlack v"
    by (auto simp: older_def delete_old_facts split: option.splits)
  from assign_texture_cases [OF o1', of tex_ok' "''FBO color att 1''" w h] ok(2) n2
  obtain g3 where a3: "assign_texture tex_ok' ''FBO color att 1'' w h (fboTexBlack v) g2 = Inr (Suc ?n, g3)"
    and n3: "next_name g3 = Suc (Suc ?n)" and t3: "textures g3 (Suc ?n) = Some (w, h)"
    and k3: "\<forall>t. t < Suc ?n \<and> Some t \<noteq> fboTexBlack v \<longrightarrow> textures g3 t = textures g2 t"
    and r3: "renderbuffers g3 = renderbuffers g2"
    and d3: "depth_test g3 = depth_test g2" "draws_of (calls g3) = draws_of (calls g2)"
    by (auto simp: draws_of_append)
  from k3 ne1 t2 have t3': "textures g3 ?n = Some (w, h)" by simp
  from o2 n3 have o2': "older (fboDep v) g3"
    by (auto simp: older_def delete_old_facts split: option.splits)
  from assign_renderbuffer_cases [OF o2', of rb_ok' w h] ok(3) n3
  obtain g4 where a4: "assign_renderbuffer rb_ok' w h (fboDep v) g3 = Inr (Suc (Suc ?n), g4)"
    and n4: "next_name g4 = Suc (Suc (Suc ?n))"
    and r4: "renderbuffers g4 (Suc (Suc ?n)) = Some (w, h)"
    and t4: "textures g4 = textures g3"
    and d4: "depth_test g4 = depth_test g3" "draws_of (calls g4) = draws_of (calls g3)"
    by (auto simp: draws_of_append)
  from n4 have pos4: "0 < next_name g4" by simp
  from build_framebuffer_result [OF pos4, of ?n "Suc ?n" "Suc (Suc ?n)"] n4
  obtain g5 where a5: "build_framebuffer ?n (Suc ?n) (Suc (Suc ?n)) g4 = (Suc (Suc (Suc ?n)), g5)"
    and n5: "next_name g5 = Suc (Suc (Suc (Suc ?n)))"
    and f5: "framebuffers g5 (Suc (Suc (Suc ?n))) =
        Some \<lparr>color_attachment0 = Some ?n, color_attachment1 = Some (Suc ?n),
              depth_attachment = Some (Suc (Suc ?n))\<rparr>"
    and t5: "textures g5 = textures g4" and r5: "renderbuffers g5 = renderbuffers g4"
    and d5: "depth_test g5 = depth_test g4" "draws_of (calls g5) = draws_of (calls g4)"
    by (auto simp: draws_of_append)
  let ?v' = "v\<lparr>vpw := w, vph := h, fboTex := Some ?n, fboTexBlack := Some (Suc ?n),
               fboDep := Some (Suc (Suc ?n)), fbo := Suc (Suc (Suc ?n))\<rparr>"
  have res: "reallocate_target tex_ok' rb_ok' w h (v, g) = Inr (?v', g5)"
    by (simp add: reallocate_target_unfold a2 a3 a4 a5)
  have nk': "names_known (?v', g5)"
    by (simp add: names_known_def n5)
  have ts: "target_sizes (?v', g5) = Some ((w, h), (w, h), (w, h))"
    by (simp add: target_sizes_def f5 t5 t4 t3 t3' r5 r4)
  from res nk' ts f5 d2 d3 d4 d5 n5 show ?thesis by simp
qed


lemma reallocate_target_deletes_first:
  assumes nk: "names_known (v, g)" and live: "fbo v \<noteq> 0"
  shows "\<exists>v' g' cs. final_state (reallocate_target tex_ok' rb_ok' w h (v, g)) = (v', g') \<and>
      framebuffers g' (fbo v) = None \<and> vpw v' = w \<and> vph v' = h \<and>
      calls g' = calls g @ DeleteFramebuffers (fbo v) # cs"
proof -
  let ?n = "next_name g"
  let ?g1 = "delete_old v g"
  from nk have pos: "0 < ?n" and old: "fbo v < ?n" and o0: "older (fboTex v) ?g1"
    and o1: "older (fboTexBlack v) ?g1" and o2: "older (fboDep v) ?g1"
    by (auto simp: names_known_def older_def delete_old_facts split: option.splits)
  from live have f1: "framebuffers ?g1 (fbo v) = None"
    and c1: "calls ?g1 = calls g @ [DeleteFramebuffers (fbo v)]"
    by (simp_all add: delete_old_facts)
  from assign_texture_cases [OF o0, of tex_ok' "''FBO color att 0''" w h]
  show ?thesis
  proof (elim disjE conjE exE)
    assume "assign_texture tex_ok' ''FBO color att 0'' w h (fboTex v) ?g1 = Inl CreateFailed"
    then show ?thesis
      by (simp add: reallocate_target_unfold final_state_def f1 c1)
  next
    fix g2 cs2
    assume a2: "assign_texture tex_ok' ''FBO color att 0'' w h (fboTex v) ?g1 = Inr (next_name ?g1, g2)"
      and n2: "next_name g2 = Suc (next_name ?g1)"
      and f2: "framebuffers g2 = framebuffers ?g1"
      and c2: "calls g2 = calls ?g1 @ cs2"
    from o1 n2 have o1': "older (fboTexBlack v) g2"
      by (auto simp: older_def split: option.splits)
    from assign_texture_cases [OF o1', of tex_ok' "''FBO color att 1''" w h]
    show ?thesis
    proof (elim disjE conjE exE)
      assume "assign_texture tex_ok' ''FBO color att 1'' w h (fboTexBlack v) g2 = Inl CreateFailed"
      then show ?thesis
        by (simp add: reallocate_target_unfold final_state_def a2 f2 f1 c2 c1)
    next
      fix g3 cs3
      assume a3: "assign_texture tex_ok' ''FBO color att 1'' w h (fboTexBlack v) g2 = Inr (next_name g2, g3)"
        and n3: "next_name g3 = Suc (next_name g2)"
        and f3: "framebuffers g3 = framebuffers g2"
        and c3: "calls g3 = calls g2 @ cs3"
      from o2 n2 n3 have o2': "older (fboDep v) g3"
        by (auto simp: older_def split: option.splits)
      from assign_renderbuffer_cases [OF o2', of rb_ok' w h]
      show ?thesis
      proof (elim disjE conjE exE)
        assume "assign_renderbuffer rb_ok' w h (fboDep v) g3 = Inl CreateFailed"
        then show ?thesis
          by (simp add: reallocate_target_unfold final_state_def a2 a3 f3 f2 f1 c3 c2 c1)
      next
        fix g4 cs4
        assume a4: "assign_renderbuffer rb_ok' w h (fboDep v) g3 = Inr (next_name g3, g4)"
          and n4: "next_name g4 = Suc (next_name g3)"
          and f4: "framebuffers g4 = framebuffers g3"
          and c4: "calls g4 = calls g3 @ cs4"
        from n4 have pos4: "0 < next_name g4" by simp
        from build_framebuffer_result [OF pos4, of "next_name ?g1" "next_name g2" "next_name g3"]
        obtain g5 cs5 where a5: "build_framebuffer (next_name ?g1) (next_name g2) (next_name g3) g4 =
            (next_name g4, g5)"
          and k5: "\<forall>f. f \<noteq> next_name g4 \<longrightarrow> framebuffers g5 f = framebuffers g4 f"
          and c5: "calls g5 = calls g4 @ cs5"
          by blast
        from old n2 n3 n4 have "fbo v \<noteq> next_name g4"
          by (simp add: delete_old_facts)
        with k5 f4 f3 f2 f1 have f5: "framebuffers g5 (fbo v) = None" by simp
        from c5 c4 c3 c2 c1
        have c5': "calls g5 = calls g @ DeleteFramebuffers (fbo v) # (cs2 @ cs3 @ cs4 @ cs5)"
          by simp
        show ?thesis
          by (simp add: reallocate_target_unfold final_state_def a2 a3 a4 a5 f5 c5')
      qed
    qed
  qed
qed

lemma target_valid_init: "target_valid (viewport_init, gl_init)"
  by (simp add: target_valid_def names_known_def viewport_init_def gl_init_def)

lemma target_valid_black: "target_valid (v, g) \<Longrightarrow> fbo v \<noteq> 0 \<Longrightarrow> fboTexBlack v \<noteq> None"
  by (auto simp: target_valid_def target_sizes_def split: option.splits)

lemma viewport_resize_ok:
  assumes size: "0 < w" "w < 2 ^ 31" "0 < h" "h < 2 ^ 31"
    and ok: "tex_ok' ''FBO color att 0'' w h" "tex_ok' ''FBO color att 1'' w h" "rb_ok' w h"
    and valid: "target_valid (v, g)"
  shows "\<exists>v' g'. viewport_resize tex_ok' rb_ok' (of_int w, of_int h) (v, g) = Inr (v', g') \<and>
      vpw v' = w \<and> vph v' = h \<and>
      target_sizes (v', g') = Some ((w, h), (w, h), (w, h)) \<and>
      target_valid (v', g') \<and> fbo v' \<noteq> 0 \<and>
      viewport_resize tex_ok' rb_ok' (of_int w, of_int h) (v', g') = Inr (v', g') \<and>
      depth_test g' = depth_test g \<and> draws_of (calls g') = draws_of (calls g)"
proof (cases "vpw v = w \<and> vph v = h")
  case True
  with size valid have live: "fbo v \<noteq> 0"
    by (auto simp: target_valid_def split: if_splits)
  with True valid have "target_sizes (v, g) = Some ((w, h), (w, h), (w, h))"
    by (simp add: target_valid_def)
  with True valid live show ?thesis
    by (simp add: viewport_resize_def)
next
  case False
  from size have cast: "float_to_int (of_int w) = Some w" "float_to_int (of_int h) = Some h"
    by (simp_all add: float_to_int_of_int)
  from valid have nk: "names_known (v, g)"
    by (simp add: target_valid_def)
  from reallocate_target_ok [where tex_ok' = tex_ok' and rb_ok' = rb_ok', OF ok nk] obtain v' g' where
    r: "reallocate_target tex_ok' rb_ok' w h (v, g) = Inr (v', g')"
    and s: "vpw v' = w" "vph v' = h" "fbo v' \<noteq> 0" "names_known (v', g')"
      "target_sizes (v', g') = Some ((w, h), (w, h), (w, h))"
      "framebuffers g' (fbo v') =
             Some \<lparr>color_attachment0 = fboTex v', color_attachment1 = fboTexBlack v',
                   depth_attachment = fboDep v'\<rparr>"
      "depth_test g' = depth_test g" "draws_of (calls g') = draws_of (calls g)"
    by blast
  from False have "viewport_resize tex_ok' rb_ok' (of_int w, of_int h) (v, g) =
      reallocate_target tex_ok' rb_ok' w h (v, g)"
    by (auto simp: viewport_resize_def cast)
  with r s show ?thesis
    by (simp add: viewport_resize_def target_valid_def)
qed

lemma viewport_resize_deletes_first:
  assumes nk: "names_known (v, g)" and live: "fbo v \<noteq> 0"
    and changed: "of_int (vpw v) \<noteq> sx \<or> of_int (vph v) \<noteq> sy"
    and cast: "float_to_int sx = Some w" "float_to_int sy = Some h"
  shows "(\<exists>v' g' cs. final_state (viewport_resize tex_ok' rb_ok' (sx, sy) (v, g)) = (v', g') \<and>
            framebuffers g' (fbo v) = None \<and> vpw v' = w \<and> vph v' = h \<and>
            calls g' = calls g @ DeleteFramebuffers (fbo v) # cs) \<and>
         (\<not> tex_ok' ''FBO color att 0'' w h \<longrightarrow>
            viewport_resize tex_ok' rb_ok' (sx, sy) (v, g) =
              Inl (CreateFailed, v\<lparr>vpw := w, vph := h\<rparr>, glDeleteFramebuffers (fbo v) g))"
proof -
  from changed cast have e: "viewport_resize tex_ok' rb_ok' (sx, sy) (v, g) =
      reallocate_target tex_ok' rb_ok' w h (v, g)"
    by (auto simp: viewport_resize_def)
  have "\<not> tex_ok' ''FBO color att 0'' w h \<Longrightarrow>
      reallocate_target tex_ok' rb_ok' w h (v, g) =
        Inl (CreateFailed, v\<lparr>vpw := w, vph := h\<rparr>, glDeleteFramebuffers (fbo v) g)"
    using live
    by (simp add: reallocate_target_unfold assign_texture_def Texture_Create_def delete_old_def)
  with e reallocate_target_deletes_first [OF nk live, of tex_ok' rb_ok' w h]
  show ?thesis by simp
qed

lemma float_to_int_whole: "float_to_int (of_int k) = Some w \<Longrightarrow> w = k"
  by (auto simp: float_to_int_def Let_def split: if_splits)

lemma viewport_resize_changed:
  assumes cast: "float_to_int sx = Some w" "float_to_int sy = Some h"
    and ok: "tex_ok' ''FBO color att 0'' w h" "tex_ok' ''FBO color att 1'' w h" "rb_ok' w h"
    and nk: "names_known (v, g)"
    and changed: "of_int (vpw v) \<noteq> sx \<or> of_int (vph v) \<noteq> sy"
  shows "\<exists>v' g'. viewport_resize tex_ok' rb_ok' (sx, sy) (v, g) = Inr (v', g') \<and>
      vpw v' = w \<and> vph v' = h \<and>
      target_sizes (v', g') = Some ((w, h), (w, h), (w, h)) \<and>
      target_valid (v', g') \<and>
      fbo v' = next_name g + 3 \<and> next_name g' = next_name g + 4"
proof -
  from reallocate_target_ok [where tex_ok' = tex_ok' and rb_ok' = rb_ok', OF ok nk] obtain v' g' where
    r: "reallocate_target tex_ok' rb_ok' w h (v, g) = Inr (v', g')"
    and s: "vpw v' = w" "vph v' = h" "fbo v' \<noteq> 0" "names_known (v', g')"
      "target_sizes (v', g') = Some ((w, h), (w, h), (w, h))"
      "framebuffers g' (fbo v') =
             Some \<lparr>color_attachment0 = fboTex v', color_attachment1 = fboTexBlack v',
                   depth_attachment = fboDep v'\<rparr>"
      "fbo v' = next_name g + 3" "next_name g' = next_name g + 4"
    by blast
  from changed cast have "viewport_resize tex_ok' rb_ok' (sx, sy) (v, g) =
      reallocate_target tex_ok' rb_ok' w h (v, g)"
    by (auto simp: viewport_resize_def)
  with r s show ?thesis
    by (simp add: target_valid_def)
qed

lemma viewport_resize_truncates:
  assumes pos: "0 < sx" "0 < sy"
    and cast: "float_to_int sx = Some w" "float_to_int sy = Some h"
    and ok: "tex_ok' ''FBO color att 0'' w h" "tex_ok' ''FBO color att 1'' w h" "rb_ok' w h"
    and valid: "target_valid (v, g)"
  shows "\<exists>v' g'. viewport_resize tex_ok' rb_ok' (sx, sy) (v, g) = Inr (v', g') \<and>
      vpw v' = w \<and> vph v' = h \<and>
      target_sizes (v', g') = Some ((w, h), (w, h), (w, h)) \<and>
      target_valid (v', g') \<and>
      (sx = of_int w \<and> sy = of_int h \<longrightarrow>
         viewport_resize tex_ok' rb_ok' (sx, sy) (v', g') = Inr (v', g'))"
proof (cases "of_int (vpw v) \<noteq> sx \<or> of_int (vph v) \<noteq> sy")
  case True
  from valid have nk: "names_known (v, g)"
    by (simp add: target_valid_def)
  from viewport_resize_changed [where tex_ok' = tex_ok' and rb_ok' = rb_ok', OF cast ok nk True]
  obtain v' g' where
    r: "viewport_resize tex_ok' rb_ok' (sx, sy) (v, g) = Inr (v', g')"
    and s: "vpw v' = w" "vph v' = h" "target_sizes (v', g') = Some ((w, h), (w, h), (w, h))"
      "target_valid (v', g')"
    by blast
  from s have "sx = of_int w \<and> sy = of_int h \<longrightarrow>
      viewport_resize tex_ok' rb_ok' (sx, sy) (v', g') = Inr (v', g')"
    by (simp add: viewport_resize_def)
  with r s show ?thesis by blast
next
  case False
  then have e: "sx = of_int (vpw v)" "sy = of_int (vph v)" by simp_all
  with cast have wh: "w = vpw v" "h = vph v"
    by (simp_all add: float_to_int_whole)
  from pos e have "0 < vpw v" by simp
  with valid have live: "fbo v \<noteq> 0"
    by (auto simp: target_valid_def split: if_splits)
  with valid wh have "target_sizes (v, g) = Some ((w, h), (w, h), (w, h))"
    by (simp add: target_valid_def)
  with False valid wh show ?thesis
    by (simp add: viewport_resize_def)
qed

lemma fractional_target:
  "\<exists>v g. viewport_resize (texture_limit 16384) (renderbuffer_limit 16384) (2049 / 2, 768)
            (viewport_init, gl_init) = Inr (v, g) \<and>
     vpw v = 1024 \<and> vph v = 768 \<and> fbo v = 4 \<and> next_name g = 5 \<and> names_known (v, g) \<and>
     target_sizes (v, g) = Some ((1024, 768), (1024, 768), (1024, 768))"
proof -
  have c: "float_to_int (2049 / 2) = Some 1024" "float_to_int 768 = Some 768"
    by (simp_all add: float_to_int_def floor_unique)
  have nk: "names_known (viewport_init, gl_init)"
    by (simp add: names_known_def viewport_init_def gl_init_def)
  have ch: "of_int (vpw viewport_init) \<noteq> (2049 / 2 :: rat) \<or>
      of_int (vph viewport_init) \<noteq> (768 :: rat)"
    by (simp add: viewport_init_def)
  have ok: "texture_limit 16384 ''FBO color att 0'' 1024 768"
      "texture_limit 16384 ''FBO color att 1'' 1024 768" "renderbuffer_limit 16384 1024 768"
    by (simp_all add: texture_limit_def renderbuffer_limit_def)
  from viewport_resize_changed [where tex_ok' = "texture_limit 16384"
      and rb_ok' = "renderbuffer_limit 16384", OF c ok nk ch]
  show ?thesis
    by (auto simp: gl_init_def target_valid_def)
qed

text \<open>
  C5, as the code has it. The claim speaks of all sizes with positive sides. The
  counterexample is the region size 1024.5 by 768 on the first frame: the attachments are
  1024 by 768, and a second resize with the very same size succeeds as a reallocation,
  leaving framebuffer 8 where the first left framebuffer 4.
\<close>

theorem resize_fractional_size_counterexample:
  "target_sizes (final_state (viewport_resize (texture_limit 16384) (renderbuffer_limit 16384)
      (2049 / 2, 768) (viewport_init, gl_init))) = Some ((1024, 768), (1024, 768), (1024, 768)) \<and>
   fbo (fst (final_state (viewport_resize (texture_limit 16384) (renderbuffer_limit 16384)
      (2049 / 2, 768) (viewport_init, gl_init)))) = 4 \<and>
   failure (viewport_resize (texture_limit 16384) (renderbuffer_limit 16384) (2049 / 2, 768)
     (final_state (viewport_resize (texture_limit 16384) (renderbuffer_limit 16384)
        (2049 / 2, 768) (viewport_init, gl_init)))) = None \<and>
   fbo (fst (final_state (viewport_resize (texture_limit 16384) (renderbuffer_limit 16384)
     (2049 / 2, 768)
     (final_state (viewport_resize (texture_limit 16384) (renderbuffer_limit 16384)
        (2049 / 2, 768) (viewport_init, gl_init)))))) = 8"
proof -
  from fractional_target obtain v g where
    r: "viewport_resize (texture_limit 16384) (renderbuffer_limit 16384) (2049 / 2, 768)
            (viewport_init, gl_init) = Inr (v, g)"
    and s: "vpw v = 1024" "vph v = 768" "fbo v = 4" "next_name g = 5" "names_known (v, g)"
      "target_sizes (v, g) = Some ((1024, 768), (1024, 768), (1024, 768))"
    by blast
  have c: "float_to_int (2049 / 2) = Some 1024" "float_to_int 768 = Some 768"
    by (simp_all add: float_to_int_def floor_unique)
  from s have ch: "of_int (vpw v) \<noteq> (2049 / 2 :: rat) \<or> of_int (vph v) \<noteq> (768 :: rat)"
    by simp
  have ok: "texture_limit 16384 ''FBO color att 0'' 1024 768"
      "texture_limit 16384 ''FBO color att 1'' 1024 768" "renderbuffer_limit 16384 1024 768"
    by (simp_all add: texture_limit_def renderbuffer_limit_def)
  from viewport_resize_changed [where tex_ok' = "texture_limit 16384"
      and rb_ok' = "renderbuffer_limit 16384", OF c ok s(5) ch] s(4)
  obtain v' g' where
    r': "viewport_resize (texture_limit 16384) (renderbuffer_limit 16384) (2049 / 2, 768) (v, g) =
      Inr (v', g')" and f: "fbo v' = 8"
    by auto
  from r s r' f show ?thesis
    by (simp add: final_state_def failure_def)
qed

text \<open>
  C5, amended. For every region size with positive sides whose truncation to whole pixels
  \<open>(w, h)\<close> fits an \<open>int\<close>, when the context can create the three attachments, the
  resize leaves a render target whose two colour attachments and depth attachment are
  exactly \<open>w\<close> by \<open>h\<close>, the truncated size. For a whole-pixel size a second resize with
  the same size changes nothing: neither the locals nor the context, in which no further
  call is issued.
\<close>

theorem viewport_resize_truncated_size:
  assumes "0 < sx" "0 < sy"
    and "float_to_int sx = Some w" "float_to_int sy = Some h"
    and "tex_ok' ''FBO color att 0'' w h" "tex_ok' ''FBO color att 1'' w h" "rb_ok' w h"
    and "target_valid (v, g)"
  shows "\<exists>v' g'. viewport_resize tex_ok' rb_ok' (sx, sy) (v, g) = Inr (v', g') \<and>
      vpw v' = w \<and> vph v' = h \<and>
      target_sizes (v', g') = Some ((w, h), (w, h), (w, h)) \<and>
      target_valid (v', g') \<and>
      (sx = of_int w \<and> sy = of_int h \<longrightarrow>
         viewport_resize tex_ok' rb_ok' (sx, sy) (v', g') = Inr (v', g'))"
  using viewport_resize_truncates [where tex_ok' = tex_ok' and rb_ok' = rb_ok' and sx = sx
      and sy = sy and w = w and h = h and v = v and g = g] assms
  by blast

theorem viewport_resize_truncated_size_witness:
  "(\<exists>v' g'. viewport_resize (texture_limit 16384) (renderbuffer_limit 16384) (800, 600)
               (viewport_init, gl_init) = Inr (v', g') \<and>
      vpw v' = 800 \<and> vph v' = 600 \<and>
      target_sizes (v', g') = Some ((800, 600), (800, 600), (800, 600)) \<and>
      viewport_resize (texture_limit 16384) (renderbuffer_limit 16384) (800, 600) (v', g') =
        Inr (v', g')) \<and>
   (\<exists>v' g'. viewport_resize (texture_limit 16384) (renderbuffer_limit 16384) (2049 / 2, 768)
               (viewport_init, gl_init) = Inr (v', g') \<and>
      vpw v' = 1024 \<and> vph v' = 768 \<and>
      target_sizes (v', g') = Some ((1024, 768), (1024, 768), (1024, 768)))"
proof -
  have c: "float_to_int 800 = Some 800" "float_to_int 600 = Some 600"
      "float_to_int (2049 / 2) = Some 1024" "float_to_int 768 = Some 768"
    by (simp_all add: float_to_int_def floor_unique)
  have ok: "texture_limit 16384 ''FBO color att 0'' 800 600"
      "texture_limit 16384 ''FBO color att 1'' 800 600" "renderbuffer_limit 16384 800 600"
      "texture_limit 16384 ''FBO color att 0'' 1024 768"
      "texture_limit 16384 ''FBO color att 1'' 1024 768" "renderbuffer_limit 16384 1024 768"
    by (simp_all add: texture_limit_def renderbuffer_limit_def)
  have p: "(0 :: rat) < 800" "(0 :: rat) < 600" "(0 :: rat) < 2049 / 2" "(0 :: rat) < 768"
    by simp_all
  from viewport_resize_truncated_size [where tex_ok' = "texture_limit 16384"
      and rb_ok' = "renderbuffer_limit 16384", OF p(1,2) c(1,2) ok(1,2,3) target_valid_init]
  have a: "\<exists>v' g'. viewport_resize (texture_limit 16384) (renderbuffer_limit 16384) (800, 600)
               (viewport_init, gl_init) = Inr (v', g') \<and>
      vpw v' = 800 \<and> vph v' = 600 \<and>
      target_sizes (v', g') = Some ((800, 600), (800, 600), (800, 600)) \<and>
      viewport_resize (texture_limit 16384) (renderbuffer_limit 16384) (800, 600) (v', g') =
        Inr (v', g')"
    by auto
  from viewport_resize_truncated_size [where tex_ok' = "texture_limit 16384"
      and rb_ok' = "renderbuffer_limit 16384", OF p(3,4) c(3,4) ok(4,5,6) target_valid_init]
  have b: "\<exists>v' g'. viewport_resize (texture_limit 16384) (renderbuffer_limit 16384) (2049 / 2, 768)
               (viewport_init, gl_init) = Inr (v', g') \<and>
      vpw v' = 1024 \<and> vph v' = 768 \<and>
      target_sizes (v', g') = Some ((1024, 768), (1024, 768), (1024, 768))"
    by blast
  from a b show ?thesis by blast
qed

lemma first_target:
  "\<exists>v g. viewport_resize (texture_limit 16384) (renderbuffer_limit 16384) (800, 600)
            (viewport_init, gl_init) = Inr (v, g) \<and>
     vpw v = 800 \<and> vph v = 600 \<and> fbo v \<noteq> 0 \<and> names_known (v, g) \<and>
     target_sizes (v, g) = Some ((800, 600), (800, 600), (800, 600)) \<and>
     target_valid (v, g) \<and> depth_test g \<and> draws_of (calls g) = []"
proof -
  from viewport_resize_ok [of 800 600 "texture_limit 16384" "renderbuffer_limit 16384"
      viewport_init gl_init] target_valid_init
  obtain v g where r: "viewport_resize (texture_limit 16384) (renderbuffer_limit 16384) (800, 600)
            (viewport_init, gl_init) = Inr (v, g)"
    and s: "vpw v = 800" "vph v = 600" "target_sizes (v, g) = Some ((800, 600), (800, 600), (800, 600))"
      "target_valid (v, g)" "fbo v \<noteq> 0" "depth_test g = depth_test gl_init"
      "draws_of (calls g) = draws_of (calls gl_init)"
    by (auto simp: texture_limit_def renderbuffer_limit_def)
  from s have "names_known (v, g)"
    by (auto simp: target_valid_def split: if_splits)
  with r s show ?thesis by (simp add: gl_init_def)
qed

text \<open>
  C1, as the code has it. The claim says that the old framebuffer and attachments go only
  after the new ones are complete, so that a failed creation leaves the previous target
  intact. The counterexample: from the 800 by 600 target of the first frame, a resize to
  20000 by 600 fails in the first texture creation, and the locals it leaves have the new
  size and no complete target behind them.
\<close>

theorem resize_not_atomic_counterexample:
  "target_sizes (final_state (viewport_resize (texture_limit 16384) (renderbuffer_limit 16384)
      (800, 600) (viewport_init, gl_init))) = Some ((800, 600), (800, 600), (800, 600)) \<and>
   failure (viewport_resize (texture_limit 16384) (renderbuffer_limit 16384) (20000, 600)
     (final_state (viewport_resize (texture_limit 16384) (renderbuffer_limit 16384)
        (800, 600) (viewport_init, gl_init)))) = Some CreateFailed \<and>
   target_sizes (final_state (viewport_resize (texture_limit 16384) (renderbuffer_limit 16384)
     (20000, 600)
     (final_state (viewport_resize (texture_limit 16384) (renderbuffer_limit 16384)
        (800, 600) (viewport_init, gl_init))))) = None \<and>
   vpw (fst (final_state (viewport_resize (texture_limit 16384) (renderbuffer_limit 16384)
     (20000, 600)
     (final_state (viewport_resize (texture_limit 16384) (renderbuffer_limit 16384)
        (800, 600) (viewport_init, gl_init)))))) = 20000"
proof -
  from first_target obtain v g where
    r: "viewport_resize (texture_limit 16384) (renderbuffer_limit 16384) (800, 600)
            (viewport_init, gl_init) = Inr (v, g)"
    and s: "vpw v = 800" "vph v = 600" "fbo v \<noteq> 0" "names_known (v, g)"
      "target_sizes (v, g) = Some ((800, 600), (800, 600), (800, 600))"
    by blast
  have c: "float_to_int 20000 = Some 20000" "float_to_int 600 = Some 600"
    by (simp_all add: float_to_int_def)
  from s have ch: "of_int (vpw v) \<noteq> (20000 :: rat) \<or> of_int (vph v) \<noteq> (600 :: rat)"
    by simp
  have no: "\<not> texture_limit 16384 ''FBO color att 0'' 20000 600"
    by (simp add: texture_limit_def)
  from viewport_resize_deletes_first [OF s(4) s(3) ch c,
      of "texture_limit 16384" "renderbuffer_limit 16384"] no
  have f: "viewport_resize (texture_limit 16384) (renderbuffer_limit 16384) (20000, 600) (v, g) =
      Inl (CreateFailed, v\<lparr>vpw := 20000, vph := 600\<rparr>, glDeleteFramebuffers (fbo v) g)"
    by blast
  have "target_sizes (v\<lparr>vpw := 20000, vph := 600\<rparr>, glDeleteFramebuffers (fbo v) g) = None"
    by (simp add: target_sizes_def glDeleteFramebuffers_def)
  with r s f show ?thesis
    by (simp add: final_state_def failure_def)
qed

text \<open>
  C1, amended. When the region size differs from the stored one and a framebuffer exists,
  the resize first stores the new (truncated) size and deletes the old framebuffer object,
  before anything is created; this holds whether or not the creations that follow
  succeed. When the first texture creation fails, the resize stops with exactly that done:
  nothing is rolled back.
\<close>

theorem resize_deletes_old_framebuffer_first:
  assumes "names_known (v, g)" and "fbo v \<noteq> 0"
    and "of_int (vpw v) \<noteq> sx \<or> of_int (vph v) \<noteq> sy"
    and "float_to_int sx = Some w" "float_to_int sy = Some h"
  shows "(\<exists>v' g' cs. final_state (viewport_resize tex_ok' rb_ok' (sx, sy) (v, g)) = (v', g') \<and>
            framebuffers g' (fbo v) = None \<and> vpw v' = w \<and> vph v' = h \<and>
            calls g' = calls g @ DeleteFramebuffers (fbo v) # cs) \<and>
         (\<not> tex_ok' ''FBO color att 0'' w h \<longrightarrow>
            viewport_resize tex_ok' rb_ok' (sx, sy) (v, g) =
              Inl (CreateFailed, v\<lparr>vpw := w, vph := h\<rparr>, glDeleteFramebuffers (fbo v) g))"
  using assms by (rule viewport_resize_deletes_first)

theorem resize_deletes_old_framebuffer_first_witness:
  "names_known (\<lparr>fbo = 4, fboTex = Some 1, fboTexBlack = Some 2, fboDep = Some 3, vpw = 800,
       vph = 600\<rparr>, gl_init\<lparr>next_name := 5\<rparr>) \<and>
   float_to_int (2049 / 2) = Some 1024 \<and> float_to_int 768 = Some 768 \<and>
   (\<exists>v' g' cs. final_state (viewport_resize (texture_limit 16384) (renderbuffer_limit 16384)
        (2049 / 2, 768)
        (\<lparr>fbo = 4, fboTex = Some 1, fboTexBlack = Some 2, fboDep = Some 3, vpw = 800,
          vph = 600\<rparr>, gl_init\<lparr>next_name := 5\<rparr>)) = (v', g') \<and>
      framebuffers g' 4 = None \<and> vpw v' = 1024 \<and> vph v' = 768 \<and>
      calls g' = DeleteFramebuffers 4 # cs)"
proof -
  let ?v = "\<lparr>fbo = 4, fboTex = Some 1, fboTexBlack = Some 2, fboDep = Some 3, vpw = 800,
       vph = 600\<rparr>"
  let ?g = "gl_init\<lparr>next_name := 5\<rparr>"
  have n: "names_known (?v, ?g)"
    by (simp add: names_known_def)
  have l: "fbo ?v \<noteq> 0" by simp
  have ch: "of_int (vpw ?v) \<noteq> (2049 / 2 :: rat) \<or> of_int (vph ?v) \<noteq> (768 :: rat)" by simp
  have c: "float_to_int (2049 / 2) = Some 1024" "float_to_int 768 = Some 768"
    by (simp_all add: float_to_int_def floor_unique)
  have e: "calls ?g = []" by (simp add: gl_init_def)
  from resize_deletes_old_framebuffer_first [OF n l ch c,
      of "texture_limit 16384" "renderbuffer_limit 16384"] e
  have "\<exists>v' g' cs. final_state (viewport_resize (texture_limit 16384) (renderbuffer_limit 16384)
        (2049 / 2, 768) (?v, ?g)) = (v', g') \<and>
      framebuffers g' 4 = None \<and> vpw v' = 1024 \<and> vph v' = 768 \<and>
      calls g' = DeleteFramebuffers 4 # cs"
    by simp
  with n c show ?thesis by blast
qed

subsection \<open>Depth test during the frame\<close>

lemma sun_pass_depth:
  "\<exists>c g'. sun_pass env g = (c, g') \<and> depth_test g' = depth_test g \<and>
     map draw_depth (draws_of (calls g')) =
       map draw_depth (draws_of (calls g)) @ [(SunQuad, depth_test g)]"
  by (cases "clipSpace env")
     (simp add: sun_pass_def Let_def Shader_Bind_def Shader_Uniform_def Mesh_Draw_def
        draws_of_append draw_depth_def)

lemma blur_pass_depth:
  assumes "fboTexBlack v \<noteq> None"
  shows "\<exists>g'. blur_pass env v c g = Inr g' \<and> depth_test g' \<and>
     map draw_depth (draws_of (calls g')) =
       map draw_depth (draws_of (calls g)) @ [(BlurQuad, False)]"
  using assms
  by (cases "fboTexBlack v")
     (simp_all add: blur_pass_def Let_def deref_def Shader_Bind_def Shader_Uniform_def
        Texture_Bind_def glDrawBuffers_def Mesh_Draw_def draws_of_append draw_depth_def)

lemma render_viewport_depth:
  assumes tb: "fboTexBlack v \<noteq> None"
  shows "\<exists>g'. render_viewport env registry (v, g) = Inr g' \<and> depth_test g' \<and>
     map draw_depth (draws_of (calls g')) =
       map draw_depth (draws_of (calls g)) @
       map (\<lambda>e. (EntityMesh (fst e), depth_test g)) (filter scene_drawable (registry_view registry)) @
       [(SunQuad, depth_test g), (BlurQuad, False)]"
proof -
  let ?g2 = "(glBindFramebuffer (fbo v) g)\<lparr>calls := calls (glBindFramebuffer (fbo v) g) @ [Clear]\<rparr>"
  have d2: "depth_test ?g2 = depth_test g" "draws_of (calls ?g2) = draws_of (calls g)"
    by (simp_all add: glBindFramebuffer_def draws_of_append)
  from for_each_scene_depth [of "culls env" "registry_view registry" ?g2] d2
  obtain g3 where s3: "scene_pass (culls env) registry ?g2 = Inr g3"
    and d3: "depth_test g3 = depth_test g"
    and m3: "map draw_depth (draws_of (calls g3)) =
       map draw_depth (draws_of (calls g)) @
         map (\<lambda>e. (EntityMesh (fst e), depth_test g)) (filter scene_drawable (registry_view registry))"
    by (auto simp: scene_pass_def)
  from sun_pass_depth [of env g3] d3
  obtain c g4 where s4: "sun_pass env g3 = (c, g4)"
    and m4: "map draw_depth (draws_of (calls g4)) =
       map draw_depth (draws_of (calls g3)) @ [(SunQuad, depth_test g)]"
    by auto
  from blur_pass_depth [OF tb, of env c g4]
  obtain g5 where s5: "blur_pass env v c g4 = Inr g5" and d5: "depth_test g5"
    and m5: "map draw_depth (draws_of (calls g5)) =
       map draw_depth (draws_of (calls g4)) @ [(BlurQuad, False)]"
    by blast
  have "render_viewport env registry (v, g) = Inr g5"
    by (simp add: render_viewport_def Let_def s3 s4 s5)
  with d5 m5 m4 m3 show ?thesis by simp
qed

lemma first_frame_draws:
  "frame_draws (viewport_block (startup_env clip t) registry (800, 600) (viewport_init, gl_init)) =
     map (\<lambda>e. (EntityMesh (fst e), True)) (filter scene_drawable (registry_view registry)) @
     [(SunQuad, True), (BlurQuad, False)]"
proof -
  from first_target obtain v g where
    r: "viewport_resize (texture_limit 16384) (renderbuffer_limit 16384) (800, 600)
            (viewport_init, gl_init) = Inr (v, g)"
    and s: "fbo v \<noteq> 0" "target_valid (v, g)" "depth_test g" "draws_of (calls g) = []"
    by blast
  from s have "fboTexBlack v \<noteq> None" by (simp add: target_valid_black)
  from render_viewport_depth [OF this, of "startup_env clip t" registry g] s
  obtain g' where "render_viewport (startup_env clip t) registry (v, g) = Inr g'"
    and "map draw_depth (draws_of (calls g')) =
       map (\<lambda>e. (EntityMesh (fst e), True)) (filter scene_drawable (registry_view registry)) @
       [(SunQuad, True), (BlurQuad, False)]"
    by auto
  with r show ?thesis
    by (simp add: viewport_block_def startup_env_def frame_draws_def final_state_def)
qed

text \<open>
  C3, as the code has it. The claim says the depth test is off while the sun billboard is
  drawn. The counterexample is the first frame of a session with an 800 by 600 viewport
  and one opaque entity: the entity and the sun quad are drawn with the depth test on,
  the blur quad with the depth test off.
\<close>

theorem sun_depth_test_counterexample:
  "frame_draws (viewport_block (startup_env (1, 1 / 5, 1, 2) 0)
       [editor_entity 0 ''default'' (Some 4) (Some 5) (Some 6)] (800, 600)
       (viewport_init, gl_init)) =
     [(EntityMesh 0, True), (SunQuad, True), (BlurQuad, False)]"
  by (simp add: first_frame_draws editor_entity_def scene_drawable_def)

text \<open>
  C3, amended. In a frame that starts with the depth test on (as the startup code and the
  end of every earlier frame leave it), the entities and the sun billboard are drawn with
  the depth test on, so scene geometry in front of the sun hides it; the depth test is
  switched off only after the sun draw, for the radial blur quad, and is on again when the
  block ends.
\<close>

theorem sun_drawn_with_depth_test:
  assumes "depth_test g" and "fboTexBlack v \<noteq> None"
  shows "\<exists>g'. render_viewport env registry (v, g) = Inr g' \<and> depth_test g' \<and>
     map draw_depth (draws_of (calls g')) =
       map draw_depth (draws_of (calls g)) @
       map (\<lambda>e. (EntityMesh (fst e), True)) (filter scene_drawable (registry_view registry)) @
       [(SunQuad, True), (BlurQuad, False)]"
  using render_viewport_depth [OF assms(2), of env registry g] assms(1) by simp

theorem sun_drawn_with_depth_test_witness:
  "depth_test gl_init \<and>
   (\<exists>g'. render_viewport (startup_env (1, 1 / 5, 1, 2) 0)
            [editor_entity 0 ''default'' (Some 4) (Some 5) (Some 6)]
            (\<lparr>fbo = 4, fboTex = Some 1, fboTexBlack = Some 2, fboDep = Some 3, vpw = 800,
              vph = 600\<rparr>, gl_init) = Inr g' \<and> depth_test g' \<and>
      map draw_depth (draws_of (calls g')) = [(EntityMesh 0, True), (SunQuad, True), (BlurQuad, False)])"
  using sun_drawn_with_depth_test [of gl_init
      "\<lparr>fbo = 4, fboTex = Some 1, fboTexBlack = Some 2, fboDep = Some 3, vpw = 800, vph = 600\<rparr>"
      "startup_env (1, 1 / 5, 1, 2) 0" "[editor_entity 0 ''default'' (Some 4) (Some 5) (Some 6)]"]
  by (simp add: gl_init_def editor_entity_def scene_drawable_def)

subsection \<open>The radial blur shader\<close>

lemma floor_rat_numeral_div:
  "\<lfloor>numeral a / numeral b :: rat\<rfloor> = numeral a div numeral b"
  using floor_divide_of_int_eq [of "numeral a" "numeral b", where ?'a = rat] by simp

lemma hash12_centre: "hash12 (1 / 2, 1 / 2) = 29738551336798489 / 80000000000000000"
  by (simp add: hash12_def fract_def Let_def floor_rat_numeral_div)

lemma fract_range: "0 \<le> fract x \<and> fract x < 1"
  unfolding fract_def by linarith

lemma hash12_range: "0 \<le> hash12 p \<and> hash12 p < 1"
  by (cases p) (simp add: hash12_def Let_def fract_range)

lemma weight_form: "4 * (p - p * p) = parabolic_weight p"
  by (simp add: parabolic_weight_def algebra_simps)

lemma blur_loop_sum:
  "k \<le> n \<Longrightarrow>
   blur_loop smp j (of_nat n) (of_nat k) ((cr, cg, cb), tot) =
     ((cr + (\<Sum>t\<leftarrow>[k..<n]. red (smp ((of_nat t + j) / of_nat n)) * parabolic_weight ((of_nat t + j) / of_nat n)),
       cg + (\<Sum>t\<leftarrow>[k..<n]. green (smp ((of_nat t + j) / of_nat n)) * parabolic_weight ((of_nat t + j) / of_nat n)),
       cb + (\<Sum>t\<leftarrow>[k..<n]. blue (smp ((of_nat t + j) / of_nat n)) * parabolic_weight ((of_nat t + j) / of_nat n))),
      tot + (\<Sum>t\<leftarrow>[k..<n]. parabolic_weight ((of_nat t + j) / of_nat n)))"
proof (induction "n - k" arbitrary: k cr cg cb tot)
  case 0
  then have "k = n" by simp
  then show ?case by (simp add: blur_loop.simps)
next
  case (Suc d)
  then have lt: "k < n" and d: "d = n - Suc k" and le: "Suc k \<le> n" by simp_all
  let ?p = "(of_nat k + j) / of_nat n"
  have w: "4 * (?p - ?p * ?p) = parabolic_weight ?p"
    by (rule weight_form)
  obtain sr sg sb where s: "smp ?p = (sr, sg, sb)" by (cases "smp ?p")
  from lt have c: "(of_nat k :: rat) < of_nat n" by simp
  have suc: "(of_nat (Suc k) :: rat) = of_nat k + 1" by simp
  have step: "blur_loop smp j (of_nat n) (of_nat k) ((cr, cg, cb), tot) =
      blur_loop smp j (of_nat n) (of_nat (Suc k))
        ((cr + sr * parabolic_weight ?p, cg + sg * parabolic_weight ?p, cb + sb * parabolic_weight ?p),
         tot + parabolic_weight ?p)"
    by (subst blur_loop.simps) (simp only: c if_True prod.case Let_def s w suc)
  from lt have u: "[k..<n] = k # [Suc k..<n]" by (simp add: upt_conv_Cons)
  show ?case
    unfolding step Suc.hyps(1) [OF d le] u
    by (simp add: s red_def green_def blue_def add.assoc)
qed


lemma radial_blur_main_average:
  "radial_blur_main u uChannel0 vUv fragCoord =
     (case claimed_blur 40 (hash12 fragCoord) (main_sample u uChannel0 vUv) of
        (r, g, b) \<Rightarrow> (r, g, b, 1))"
proof -
  have n: "(40 :: rat) = of_nat 40" "(0 :: rat) = of_nat 0" by simp_all
  show ?thesis
    unfolding radial_blur_main_def Let_def main_jitter_def
    apply (subst n(1), subst n(2))
    apply (subst blur_loop_sum)
     apply simp
    apply (simp add: claimed_blur_def weighted_average_def sample_fractions_def main_sample_def
        comp_def Let_def)
    done
qed

lemma member_le_sum_list_rat:
  "\<forall>x\<in>set xs. (0 :: rat) \<le> x \<Longrightarrow> y \<in> set xs \<Longrightarrow> y \<le> sum_list xs"
proof (induction xs)
  case Nil
  then show ?case by simp
next
  case (Cons x xs)
  then have "0 \<le> sum_list xs" by (simp add: sum_list_nonneg)
  with Cons show ?case by auto
qed

lemma parabolic_weight_nonneg: "0 \<le> p \<Longrightarrow> p \<le> 1 \<Longrightarrow> 0 \<le> parabolic_weight p"
  by (simp add: parabolic_weight_def)

lemma parabolic_weight_pos: "0 < p \<Longrightarrow> p < 1 \<Longrightarrow> 0 < parabolic_weight p"
  by (simp add: parabolic_weight_def)

lemma sample_fractions_range:
  assumes "0 \<le> j" "j < 1" "p \<in> set (sample_fractions N j)"
  shows "0 \<le> p \<and> p < 1"
proof -
  from assms(3) obtain t where t: "t < N" and p: "p = (of_nat t + j) / of_nat N"
    by (auto simp: sample_fractions_def)
  from t have "of_nat t + 1 \<le> (of_nat N :: rat)"
    by (metis Suc_leI of_nat_Suc of_nat_le_iff add.commute)
  with assms(2) have "of_nat t + j < (of_nat N :: rat)" by linarith
  moreover from t have "0 < (of_nat N :: rat)" by simp
  ultimately show ?thesis using assms(1) p by (simp add: divide_less_eq)
qed

lemma fraction_weight_nonneg:
  assumes "0 \<le> j" "j < 1" "p \<in> set (sample_fractions N j)"
  shows "0 \<le> parabolic_weight p"
proof -
  from sample_fractions_range [OF assms] have "0 \<le> p" "p \<le> 1" by simp_all
  then show ?thesis by (rule parabolic_weight_nonneg)
qed

lemma fractions_total_pos:
  assumes "2 \<le> N" "0 \<le> j" "j < 1"
  shows "0 < (\<Sum>p\<leftarrow>sample_fractions N j. parabolic_weight p)"
proof -
  let ?p = "(of_nat 1 + j) / of_nat N"
  from assms(1) have m: "?p \<in> set (sample_fractions N j)"
    by (auto simp: sample_fractions_def intro!: image_eqI [where x = 1])
  from assms have "(2 :: rat) \<le> of_nat N" by (metis of_nat_le_iff of_nat_numeral)
  with assms have "0 < ?p" "?p < 1" by (simp_all add: divide_less_eq)
  then have pos: "0 < parabolic_weight ?p" by (rule parabolic_weight_pos)
  have nn: "\<forall>x\<in>set (map parabolic_weight (sample_fractions N j)). 0 \<le> x"
    using fraction_weight_nonneg [OF assms(2,3)] by auto
  from m have "parabolic_weight ?p \<in> set (map parabolic_weight (sample_fractions N j))"
    by simp
  from member_le_sum_list_rat [OF nn this] pos show ?thesis by simp
qed

text \<open>
  C9. The jitter \<open>main\<close> uses is \<open>hash12(gl_FragCoord.xy)\<close>: whatever the uniforms (the
  time among them), the sampler and \<open>vUv\<close> are, two evaluations at the same fragment
  coordinate give the same value, and the value lies in \<open>[0, 1)\<close>. (Arithmetic is exact
  here; the range rests on \<open>fract\<close> alone.)
\<close>

theorem jitter_depends_on_fragment_only:
  "main_jitter u uChannel0 vUv fragCoord = main_jitter u' uChannel0' vUv' fragCoord \<and>
   0 \<le> main_jitter u uChannel0 vUv fragCoord \<and> main_jitter u uChannel0 vUv fragCoord < 1"
  using hash12_range [of fragCoord] by (simp add: main_jitter_def)

theorem jitter_depends_on_fragment_only_witness:
  "main_jitter (blur_uniforms 20) white_columns (1 / 1600, 1 / 1200) (1 / 2, 1 / 2) =
     main_jitter (blur_uniforms 1) (\<lambda>c. (0, 0, 0, 1)) (0, 0) (1 / 2, 1 / 2) \<and>
   0 \<le> main_jitter (blur_uniforms 20) white_columns (1 / 1600, 1 / 1200) (1 / 2, 1 / 2) \<and>
   main_jitter (blur_uniforms 20) white_columns (1 / 1600, 1 / 1200) (1 / 2, 1 / 2) < 1"
  using jitter_depends_on_fragment_only [where u = "blur_uniforms 20" and ?uChannel0.0 = white_columns
      and vUv = "(1 / 1600, 1 / 1200)" and fragCoord = "(1 / 2, 1 / 2)" and u' = "blur_uniforms 1"
      and uChannel0' = "\<lambda>c. (0, 0, 0, 1)" and vUv' = "(0, 0)"]
  by blast

lemma main_sample_column:
  "main_sample (blur_uniforms n) white_columns (1 / 1600, 1 / 1200) p =
     (if 146 / 800 \<le> 1 / 1600 + 799 / 1600 * p \<and> 1 / 1600 + 799 / 1600 * p < 152 / 800
      then (1, 1, 1) else (0, 0, 0))"
  by (simp add: main_sample_def blur_sample_def getSample_def uniform_vec2_def uniform_float_def
      blur_uniforms_def white_columns_def rgb_def)

lemma left_of_columns:
  "(x :: rat) \<le> 14 \<Longrightarrow>
   1 / 1600 + 799 / 1600 * ((x + 29738551336798489 / 80000000000000000) / 40) < 146 / 800"
  by (simp add: field_simps)

lemma right_of_columns:
  "(15 :: rat) \<le> x \<Longrightarrow>
   152 / 800 \<le> 1 / 1600 + 799 / 1600 * ((x + 29738551336798489 / 80000000000000000) / 40)"
  by (simp add: field_simps)

lemma columns_black_for_loop:
  "\<forall>p\<in>set (sample_fractions 40 (hash12 (1 / 2, 1 / 2))).
     main_sample (blur_uniforms n) white_columns (1 / 1600, 1 / 1200) p = (0, 0, 0)"
proof
  fix p
  assume "p \<in> set (sample_fractions 40 (hash12 (1 / 2, 1 / 2)))"
  then obtain t :: nat where p: "p = (of_nat t + 29738551336798489 / 80000000000000000) / 40"
    by (auto simp: sample_fractions_def hash12_centre)
  consider "t \<le> 14" | "15 \<le> t" by linarith
  then show "main_sample (blur_uniforms n) white_columns (1 / 1600, 1 / 1200) p = (0, 0, 0)"
  proof cases
    case 1
    then have "(of_nat t :: rat) \<le> 14" by (metis of_nat_le_iff of_nat_numeral)
    then have "1 / 1600 + 799 / 1600 * p < 146 / 800" unfolding p by (rule left_of_columns)
    then show ?thesis by (simp add: main_sample_column)
  next
    case 2
    then have "(15 :: rat) \<le> of_nat t" by (metis of_nat_le_iff of_nat_numeral)
    then have "152 / 800 \<le> 1 / 1600 + 799 / 1600 * p" unfolding p by (rule right_of_columns)
    then show ?thesis by (simp add: main_sample_column)
  qed
qed

lemma columns_white_for_one:
  "main_sample (blur_uniforms n) white_columns (1 / 1600, 1 / 1200) (hash12 (1 / 2, 1 / 2)) = (1, 1, 1)"
  by (simp add: main_sample_column hash12_centre)

lemma black_sum:
  "\<forall>p\<in>set ps. f p = (0 :: rat) \<Longrightarrow> (\<Sum>p\<leftarrow>ps. f p * w p) = 0"
  by (induction ps) simp_all

lemma claimed_blur_black:
  assumes "\<forall>p\<in>set (sample_fractions N j). smp p = (0, 0, 0)"
  shows "claimed_blur N j smp = (0, 0, 0)"
proof -
  from assms have
    "\<forall>p\<in>set (sample_fractions N j). red (smp p) = 0"
    "\<forall>p\<in>set (sample_fractions N j). green (smp p) = 0"
    "\<forall>p\<in>set (sample_fractions N j). blue (smp p) = 0"
    by (simp_all add: red_def green_def blue_def)
  then show ?thesis
    by (simp add: claimed_blur_def weighted_average_def comp_def Let_def black_sum)
qed

text \<open>
  C6. The claim is about the \<open>N\<close> samples of an iteration count \<open>N\<close> in 1..128; the
  shader takes its 40 samples whatever \<open>N\<close> is. At \<open>Radial iterations\<close> = 1, on an 800
  by 600 target whose source texture is white in columns 146 to 151 only, for the fragment
  with \<open>gl_FragCoord.xy = (0.5, 0.5)\<close>: the one sample the claim speaks of, at
  \<open>p = jitter\<close>, is white, so the claimed weighted average is white; the 40 samples of
  the shader are all black, their total weight is positive, and the output is black,
  outside the range of the \<open>N\<close> sampled values. The output is the one for \<open>N\<close> = 40.
\<close>

theorem blur_output_ignores_iteration_count:
  "radial_blur_main (blur_uniforms 1) white_columns (1 / 1600, 1 / 1200) (1 / 2, 1 / 2) = (0, 0, 0, 1) \<and>
   0 < sum_list (map parabolic_weight (sample_fractions 40 (hash12 (1 / 2, 1 / 2)))) \<and>
   sample_fractions 1 (hash12 (1 / 2, 1 / 2)) = [hash12 (1 / 2, 1 / 2)] \<and>
   main_sample (blur_uniforms 1) white_columns (1 / 1600, 1 / 1200) (hash12 (1 / 2, 1 / 2)) = (1, 1, 1) \<and>
   claimed_blur 1 (hash12 (1 / 2, 1 / 2))
     (main_sample (blur_uniforms 1) white_columns (1 / 1600, 1 / 1200)) = (1, 1, 1) \<and>
   radial_blur_main (blur_uniforms 1) white_columns (1 / 1600, 1 / 1200) (1 / 2, 1 / 2) =
     radial_blur_main (blur_uniforms 40) white_columns (1 / 1600, 1 / 1200) (1 / 2, 1 / 2)"
proof -
  let ?smp = "main_sample (blur_uniforms 1) white_columns (1 / 1600, 1 / 1200)"
  have same: "main_sample (blur_uniforms 40) white_columns (1 / 1600, 1 / 1200) = ?smp"
    by (intro ext) (simp add: main_sample_column)
  from columns_black_for_loop [of 1]
  have z: "claimed_blur 40 (hash12 (1 / 2, 1 / 2)) ?smp = (0, 0, 0)"
    by (rule claimed_blur_black)
  then have r: "radial_blur_main (blur_uniforms 1) white_columns (1 / 1600, 1 / 1200) (1 / 2, 1 / 2) =
      (0, 0, 0, 1)"
    by (simp add: radial_blur_main_average)
  from z same have r': "radial_blur_main (blur_uniforms 40) white_columns (1 / 1600, 1 / 1200)
      (1 / 2, 1 / 2) = (0, 0, 0, 1)"
    by (simp add: radial_blur_main_average)
  have t: "0 < sum_list (map parabolic_weight (sample_fractions 40 (hash12 (1 / 2, 1 / 2))))"
    using hash12_range [of "(1 / 2, 1 / 2)"] by (intro fractions_total_pos) simp_all
  have f: "sample_fractions 1 (hash12 (1 / 2, 1 / 2)) = [hash12 (1 / 2, 1 / 2)]"
    by (simp add: sample_fractions_def)
  have w: "parabolic_weight (hash12 (1 / 2, 1 / 2)) \<noteq> 0"
    by (simp add: hash12_centre parabolic_weight_def)
  have c: "claimed_blur 1 (hash12 (1 / 2, 1 / 2)) ?smp = (1, 1, 1)"
    unfolding claimed_blur_def weighted_average_def f
    using w by (simp add: columns_white_for_one red_def green_def blue_def Let_def)
  from r r' t f c show ?thesis
    by (simp add: columns_white_for_one)
qed

lemma blur_sample_ignores:
  "blur_sample (u(''uIterations'' \<mapsto> a, ''uCenter'' \<mapsto> b)) = blur_sample u"
  by (intro ext)
     (simp add: blur_sample_def getSample_def uniform_vec2_def uniform_float_def)

lemma radial_blur_main_ignores:
  "radial_blur_main (u(''uIterations'' \<mapsto> a, ''uCenter'' \<mapsto> b)) uChannel0 vUv fragCoord =
   radial_blur_main u uChannel0 vUv fragCoord"
  by (simp add: radial_blur_main_def blur_sample_ignores main_jitter_def uniform_vec2_def)

lemma blur_pass_uploads:
  "\<exists>g' d. blur_pass env (v\<lparr>fboTexBlack := Some tb\<rparr>) c g = Inr g' \<and>
     draws_of (calls g') = draws_of (calls g) @ [d] \<and>
     dc_source d = BlurQuad \<and> dc_program d = Some (radialBlurShader env) \<and>
     dc_uniforms d ''uIterations'' = Some [of_int (samples env)] \<and>
     dc_uniforms d ''uCenter'' = Some [fst c * (1 / 2) + 1 / 2, snd c * (1 / 2) + 1 / 2]"
  by (simp add: blur_pass_def Let_def deref_def Shader_Bind_def Shader_Uniform_def
      Texture_Bind_def glDrawBuffers_def Mesh_Draw_def draws_of_append)

text \<open>
  C2. The driver does its part: the blur draw of a frame carries \<open>uIterations\<close> equal to
  \<open>samples\<close> and \<open>uCenter\<close> equal to the sun's screen-space centre remapped by
  \<open>x * 0.5 + 0.5\<close>. The shader does not: its result is the same whatever values the two
  uniforms have, since \<open>main\<close> reads neither (its count is the constant 40 and its focus
  the constant centre of the screen).
\<close>

theorem blur_shader_ignores_iterations_and_centre:
  "(\<exists>g' d. blur_pass env (v\<lparr>fboTexBlack := Some tb\<rparr>) c g = Inr g' \<and>
     draws_of (calls g') = draws_of (calls g) @ [d] \<and>
     dc_source d = BlurQuad \<and> dc_program d = Some (radialBlurShader env) \<and>
     dc_uniforms d ''uIterations'' = Some [of_int (samples env)] \<and>
     dc_uniforms d ''uCenter'' = Some [fst c * (1 / 2) + 1 / 2, snd c * (1 / 2) + 1 / 2]) \<and>
   radial_blur_main (u(''uIterations'' \<mapsto> a, ''uCenter'' \<mapsto> b)) uChannel0 vUv fragCoord =
   radial_blur_main u uChannel0 vUv fragCoord"
  using blur_pass_uploads [where env = env and v = v and tb = tb and c = c and g = g]
    radial_blur_main_ignores [where u = u and a = a and b = b and ?uChannel0.0 = uChannel0
      and vUv = vUv and fragCoord = fragCoord]
  by blast

theorem blur_shader_ignores_iterations_and_centre_witness:
  "radial_blur_main ((blur_uniforms 20)(''uIterations'' \<mapsto> [128], ''uCenter'' \<mapsto> [0, 0]))
     white_columns (1 / 1600, 1 / 1200) (1 / 2, 1 / 2) =
   radial_blur_main (blur_uniforms 20) white_columns (1 / 1600, 1 / 1200) (1 / 2, 1 / 2)"
  using blur_shader_ignores_iterations_and_centre [where u = "blur_uniforms 20" and a = "[128]"
      and b = "[0, 0]" and ?uChannel0.0 = white_columns and vUv = "(1 / 1600, 1 / 1200)"
      and fragCoord = "(1 / 2, 1 / 2)"]
  by blast

subsection \<open>ResourceManager\<close>

lemma GetMesh_cached:
  "mesh_cached r h st \<Longrightarrow> mesh_cached r h (snd (GetMesh ml r' st))"
  by (auto simp: mesh_cached_def objects_named_def GetMesh_def lock_def load_mesh_def new_object_def
        Let_def less_Suc_eq split: option.splits if_splits prod.splits)

lemma GetShader_mesh_cached:
  "mesh_cached r h st \<Longrightarrow> mesh_cached r h (snd (GetShader r' st))"
  by (auto simp: mesh_cached_def objects_named_def GetShader_def lock_def new_object_def
        Let_def less_Suc_eq split: option.splits if_splits prod.splits)

lemma GetShader_cached:
  "shader_cached r h st \<Longrightarrow> shader_cached r h (snd (GetShader r' st))"
  by (auto simp: shader_cached_def objects_named_def GetShader_def lock_def new_object_def
        Let_def less_Suc_eq split: option.splits if_splits prod.splits)

lemma GetMesh_shader_cached:
  "shader_cached r h st \<Longrightarrow> shader_cached r h (snd (GetMesh ml r' st))"
  by (auto simp: shader_cached_def objects_named_def GetMesh_def lock_def load_mesh_def new_object_def
        Let_def less_Suc_eq split: option.splits if_splits prod.splits)

lemma client_step_mesh_cached:
  "mesh_cached r h st \<Longrightarrow> mesh_cached r h (client_step ml c st)"
proof (cases c)
  case (CallGetMesh r')
  then show "mesh_cached r h st \<Longrightarrow> ?thesis" by (simp add: GetMesh_cached)
next
  case (CallGetShader r')
  then show "mesh_cached r h st \<Longrightarrow> ?thesis" by (simp add: GetShader_mesh_cached)
next
  case (CopyRef k)
  then show "mesh_cached r h st \<Longrightarrow> ?thesis" by (auto simp: mesh_cached_def objects_named_def)
next
  case (DropRef k)
  then show "mesh_cached r h st \<Longrightarrow> ?thesis" by (auto simp: mesh_cached_def objects_named_def)
qed

lemma client_step_shader_cached:
  "shader_cached r h st \<Longrightarrow> shader_cached r h (client_step ml c st)"
proof (cases c)
  case (CallGetMesh r')
  then show "shader_cached r h st \<Longrightarrow> ?thesis" by (simp add: GetMesh_shader_cached)
next
  case (CallGetShader r')
  then show "shader_cached r h st \<Longrightarrow> ?thesis" by (simp add: GetShader_cached)
next
  case (CopyRef k)
  then show "shader_cached r h st \<Longrightarrow> ?thesis" by (auto simp: shader_cached_def objects_named_def)
next
  case (DropRef k)
  then show "shader_cached r h st \<Longrightarrow> ?thesis" by (auto simp: shader_cached_def objects_named_def)
qed

lemma client_run_mesh_cached:
  "mesh_cached r h st \<Longrightarrow> mesh_cached r h (client_run ml cs st)"
  by (induction cs arbitrary: st) (simp_all add: client_step_mesh_cached)

lemma client_run_shader_cached:
  "shader_cached r h st \<Longrightarrow> shader_cached r h (client_run ml cs st)"
  by (induction cs arbitrary: st) (simp_all add: client_step_shader_cached)

lemma GetMesh_establishes:
  "objects_named st \<Longrightarrow> GetMesh ml r st = (Some h, st1) \<Longrightarrow> mesh_cached r h st1"
  by (auto simp: mesh_cached_def objects_named_def GetMesh_def lock_def load_mesh_def new_object_def
        Let_def less_Suc_eq split: option.splits if_splits prod.splits)

lemma GetShader_establishes:
  "objects_named st \<Longrightarrow> GetShader r st = (Some h, st1) \<Longrightarrow> shader_cached r h st1"
  by (auto simp: shader_cached_def objects_named_def GetShader_def lock_def new_object_def
        Let_def less_Suc_eq split: option.splits if_splits prod.splits)

lemma GetMesh_hit:
  "mMeshes st r = Some (Some h) \<Longrightarrow> 0 < use_count st h \<Longrightarrow>
   GetMesh ml r st = (Some h, st\<lparr>use_count := (use_count st)(h := Suc (use_count st h))\<rparr>)"
  by (simp add: GetMesh_def lock_def)

lemma GetShader_hit:
  "mShaders st r = Some (Some h) \<Longrightarrow> 0 < use_count st h \<Longrightarrow>
   GetShader r st = (Some h, st\<lparr>use_count := (use_count st)(h := Suc (use_count st h))\<rparr>)"
  by (simp add: GetShader_def lock_def)

lemma objects_named_init: "objects_named resources_init"
  by (simp add: objects_named_def resources_init_def)

text \<open>
  C10. \<open>GetMesh\<close> and \<open>GetShader\<close> are cache-stable. If a call returns an object and,
  after any sequence of further calls, copies and drops of shared pointers, that object is
  still alive, then a second call with the same resource string returns the same object
  and loads nothing. A call loads only when the cache has no entry for the string or the
  entry is empty or expired.
\<close>

theorem resource_cache_stable:
  assumes "objects_named st"
  shows "(fst (GetMesh ml r st) = Some h \<and>
          0 < use_count (client_run ml cs (snd (GetMesh ml r st))) h \<longrightarrow>
            fst (GetMesh ml r (client_run ml cs (snd (GetMesh ml r st)))) = Some h \<and>
            loads (snd (GetMesh ml r (client_run ml cs (snd (GetMesh ml r st))))) =
              loads (client_run ml cs (snd (GetMesh ml r st)))) \<and>
         (fst (GetShader r st) = Some h \<and>
          0 < use_count (client_run ml cs (snd (GetShader r st))) h \<longrightarrow>
            fst (GetShader r (client_run ml cs (snd (GetShader r st)))) = Some h \<and>
            loads (snd (GetShader r (client_run ml cs (snd (GetShader r st))))) =
              loads (client_run ml cs (snd (GetShader r st)))) \<and>
         (loads (snd (GetMesh ml r st)) \<noteq> loads st \<longrightarrow>
            (case mMeshes st r of Some (Some k) \<Rightarrow> use_count st k = 0 | _ \<Rightarrow> True)) \<and>
         (loads (snd (GetShader r st)) \<noteq> loads st \<longrightarrow>
            (case mShaders st r of Some (Some k) \<Rightarrow> use_count st k = 0 | _ \<Rightarrow> True))"
proof (intro conjI impI)
  let ?st2 = "client_run ml cs (snd (GetMesh ml r st))"
  assume a: "fst (GetMesh ml r st) = Some h \<and> 0 < use_count ?st2 h"
  then have "GetMesh ml r st = (Some h, snd (GetMesh ml r st))"
    by (metis prod.collapse)
  with assms have "mesh_cached r h ?st2"
    by (blast intro: client_run_mesh_cached GetMesh_establishes)
  with a have e: "mMeshes ?st2 r = Some (Some h)"
    by (simp add: mesh_cached_def)
  from GetMesh_hit [OF e] a
  show "fst (GetMesh ml r ?st2) = Some h"
    and "loads (snd (GetMesh ml r ?st2)) = loads ?st2"
    by simp_all
next
  let ?st2 = "client_run ml cs (snd (GetShader r st))"
  assume a: "fst (GetShader r st) = Some h \<and> 0 < use_count ?st2 h"
  then have "GetShader r st = (Some h, snd (GetShader r st))"
    by (metis prod.collapse)
  with assms have "shader_cached r h ?st2"
    by (blast intro: client_run_shader_cached GetShader_establishes)
  with a have e: "mShaders ?st2 r = Some (Some h)"
    by (simp add: shader_cached_def)
  from GetShader_hit [OF e] a
  show "fst (GetShader r ?st2) = Some h"
    and "loads (snd (GetShader r ?st2)) = loads ?st2"
    by simp_all
next
  assume "loads (snd (GetMesh ml r st)) \<noteq> loads st"
  then show "case mMeshes st r of Some (Some k) \<Rightarrow> use_count st k = 0 | _ \<Rightarrow> True"
    by (auto simp: GetMesh_def lock_def split: option.splits if_splits)
next
  assume "loads (snd (GetShader r st)) \<noteq> loads st"
  then show "case mShaders st r of Some (Some k) \<Rightarrow> use_count st k = 0 | _ \<Rightarrow> True"
    by (auto simp: GetShader_def lock_def split: option.splits if_splits)
qed

theorem resource_cache_stable_witness:
  "objects_named resources_init \<and>
   fst (GetMesh (\<lambda>_. True) ''fox.obj'' resources_init) = Some 1 \<and>
   0 < use_count (client_run (\<lambda>_. True) [CallGetShader ''opaque.glsl'', CopyRef 1, DropRef 1, CallGetMesh ''dragon.obj'']
         (snd (GetMesh (\<lambda>_. True) ''fox.obj'' resources_init))) 1 \<and>
   fst (GetMesh (\<lambda>_. True) ''fox.obj''
         (client_run (\<lambda>_. True) [CallGetShader ''opaque.glsl'', CopyRef 1, DropRef 1, CallGetMesh ''dragon.obj'']
           (snd (GetMesh (\<lambda>_. True) ''fox.obj'' resources_init)))) = Some 1 \<and>
   loads (snd (GetMesh (\<lambda>_. True) ''fox.obj''
         (client_run (\<lambda>_. True) [CallGetShader ''opaque.glsl'', CopyRef 1, DropRef 1, CallGetMesh ''dragon.obj'']
           (snd (GetMesh (\<lambda>_. True) ''fox.obj'' resources_init))))) =
     [(MeshResource, ''fox.obj''), (ShaderResource, ''opaque.glsl''), (MeshResource, ''dragon.obj'')] \<and>
   fst (GetShader ''opaque.glsl'' resources_init) = Some 1 \<and>
   fst (GetShader ''opaque.glsl'' (client_run (\<lambda>_. True) [CopyRef 1] (snd (GetShader ''opaque.glsl'' resources_init)))) = Some 1"
  using resource_cache_stable [OF objects_named_init, of "\<lambda>_. True" "''fox.obj''" 1
      "[CallGetShader ''opaque.glsl'', CopyRef 1, DropRef 1, CallGetMesh ''dragon.obj'']"]
    resource_cache_stable [OF objects_named_init, of "\<lambda>_. True" "''opaque.glsl''" 1 "[CopyRef 1]"]
  by (simp add: objects_named_def GetMesh_def GetShader_def lock_def load_mesh_def new_object_def
        resources_init_def Let_def)

end
